theory Spec2Isabelle
  imports Complex_Main
begin

section \<open>Strings of the host language\<close>

text \<open>
  A JavaScript string is modelled as a \<^typ>\<open>string\<close>: a list of code units, each below
  0x100 (the Latin-1 part of UTF-16). Code units from 0x100 on are outside this alphabet.
\<close>

definition starts_with :: "string \<Rightarrow> string \<Rightarrow> bool" where
  "starts_with s p = (take (length p) s = p)"

text \<open>\<^verbatim>\<open>String.prototype.includes\<close>: the needle occurs at some offset.\<close>

fun str_includes :: "string \<Rightarrow> string \<Rightarrow> bool" where
  "str_includes [] sub = (sub = [])"
| "str_includes (c # cs) sub = (starts_with (c # cs) sub \<or> str_includes cs sub)"

text \<open>\<^verbatim>\<open>String.prototype.toLowerCase\<close> on code units below 0x100: A-Z and the
  Latin-1 capitals (0xC0-0xDE without the multiplication sign 0xD7) move up by 0x20.\<close>

definition lower_char :: "char \<Rightarrow> char" where
  "lower_char c =
     (let n = (of_char c :: nat)
      in if (65 \<le> n \<and> n \<le> 90) \<or> (192 \<le> n \<and> n \<le> 222 \<and> n \<noteq> 215)
         then char_of (n + 32) else c)"

definition toLowerCase :: "string \<Rightarrow> string" where
  "toLowerCase s = map lower_char s"

text \<open>\<^verbatim>\<open>String.prototype.split\<close> with a one-character separator.\<close>

fun split_on :: "char \<Rightarrow> string \<Rightarrow> string list" where
  "split_on d [] = [[]]"
| "split_on d (c # cs) =
     (if c = d then [] # split_on d cs
      else (case split_on d cs of [] \<Rightarrow> [[c]] | p # ps \<Rightarrow> (c # p) # ps))"

text \<open>The decimal numeral of a natural number, as string concatenation with
  \<^verbatim>\<open>Date.now()\<close> renders it.\<close>

fun digits10 :: "nat \<Rightarrow> string" where
  "digits10 n =
     (if n < 10 then [''0123456789'' ! n]
      else digits10 (n div 10) @ [''0123456789'' ! (n mod 10)])"

declare digits10.simps [simp del]


section \<open>Browser state\<close>

text \<open>
  The cookie string of the document and the two Web Storage areas. Local storage and the
  cookie outlive a session; session storage lives as long as one browser session.
\<close>

record browser =
  cookie :: string
  localStorage :: "string \<rightharpoonup> string"
  sessionStorage :: "string \<rightharpoonup> string"


section \<open>Client identity: \<^verbatim>\<open>getGAClientId\<close>\<close>

text \<open>
  The regular expression \<^verbatim>\<open>/_ga=(.+?);/\<close>. The dot matches every code unit but a line
  terminator; the lazy \<^verbatim>\<open>.+?\<close> takes one code unit and then as few more as possible
  before a semicolon. \<open>capture_lazy acc cs\<close> is the state of the match after \<^verbatim>\<open>_ga=\<close> with
  \<open>acc\<close> captured so far.
\<close>

definition line_terminator :: "char \<Rightarrow> bool" where
  "line_terminator c = (c = CHR 0x0A \<or> c = CHR 0x0D)"

fun capture_lazy :: "string \<Rightarrow> string \<Rightarrow> string option" where
  "capture_lazy acc [] = None"
| "capture_lazy acc (c # cs) =
     (if c = CHR '';'' \<and> acc \<noteq> [] then Some acc
      else if line_terminator c then None
      else capture_lazy (acc @ [c]) cs)"

text \<open>\<^verbatim>\<open>document.cookie.match(/_ga=(.+?);/)\<close>: the capture group of the leftmost match,
  \<open>None\<close> for \<^verbatim>\<open>null\<close>.\<close>

fun match_ga :: "string \<Rightarrow> string option" where
  "match_ga [] = None"
| "match_ga (c # cs) =
     (case (if starts_with (c # cs) ''_ga='' then capture_lazy [] (drop 4 (c # cs)) else None) of
        Some m \<Rightarrow> Some m
      | None \<Rightarrow> match_ga cs)"

text \<open>The cookie branch of \<^verbatim>\<open>getGAClientId\<close>: segments 3 and 4 of the dot-delimited
  value, when the expression matches and the value has at least four segments.\<close>

definition cookie_client_id :: "string \<Rightarrow> string option" where
  "cookie_client_id ck =
     (case match_ga ck of
        None \<Rightarrow> None
      | Some m \<Rightarrow>
          if m \<noteq> [] then
            (let parts = split_on CHR ''.'' m
             in if length parts \<ge> 4 then Some (parts ! 2 @ ''.'' @ parts ! 3) else None)
          else None)"

text \<open>
  \<open>rnd\<close> is \<^verbatim>\<open>Math.random().toString(36).slice(2)\<close> and \<open>now\<close> is \<^verbatim>\<open>Date.now()\<close>, the two
  values the function draws from its environment. The result is the identifier and the
  browser state after the call.
\<close>

definition getGAClientId ::
  "string \<Rightarrow> nat \<Rightarrow> 'a browser_scheme \<Rightarrow> string \<times> 'a browser_scheme" where
  "getGAClientId rnd now b =
     (case cookie_client_id (cookie b) of
        Some cid \<Rightarrow> (cid, b)
      | None \<Rightarrow>
          (case localStorage b ''ga_client_id'' of
             Some cid \<Rightarrow>
               if cid \<noteq> [] then (cid, b)
               else (let cid' = ''cid_'' @ rnd @ digits10 now
                     in (cid', b\<lparr>localStorage := (localStorage b)(''ga_client_id'' \<mapsto> cid')\<rparr>))
           | None \<Rightarrow>
               (let cid' = ''cid_'' @ rnd @ digits10 now
                in (cid', b\<lparr>localStorage := (localStorage b)(''ga_client_id'' \<mapsto> cid')\<rparr>))))"


section \<open>Values\<close>

text \<open>
  Numbers: \<open>Fin q\<close> stands for the double nearest to the rational \<open>q\<close>. The tracker
  never computes with a number it is given; it tests whether it is truthy and compares the
  scroll percentage with a threshold.
\<close>

datatype jsnum = NaN | PosInf | NegInf | Fin rat

text \<open>Objects are property lists in insertion order, with each name at most once. The
  language enumerates integer-like names before the others; the model keeps every name
  where it was inserted, and no property below depends on the order of the names.\<close>

datatype jsval =
    Undefined
  | Null
  | Bool bool
  | Num jsnum
  | Str string
  | Arr "jsval list"
  | Obj "(string \<times> jsval) list"

type_synonym props = "(string \<times> jsval) list"

datatype error = SyntaxError | TypeError

fun truthy :: "jsval \<Rightarrow> bool" where
  "truthy Undefined = False"
| "truthy Null = False"
| "truthy (Bool b) = b"
| "truthy (Num n) = (case n of NaN \<Rightarrow> False | Fin q \<Rightarrow> q \<noteq> 0 | _ \<Rightarrow> True)"
| "truthy (Str s) = (s \<noteq> [])"
| "truthy (Arr xs) = True"
| "truthy (Obj ps) = True"

text \<open>The operator \<^verbatim>\<open>a || b\<close>.\<close>

definition js_or :: "jsval \<Rightarrow> jsval \<Rightarrow> jsval" where
  "js_or a b = (if truthy a then a else b)"

text \<open>Reading property \<open>k\<close> of an object built by a literal, a spread or an assignment:
  \<^verbatim>\<open>undefined\<close> when the object has no such property (none of the names the tracker reads
  is inherited from \<^verbatim>\<open>Object.prototype\<close>).\<close>

definition getp :: "props \<Rightarrow> string \<Rightarrow> jsval" where
  "getp ps k = (case map_of ps k of Some v \<Rightarrow> v | None \<Rightarrow> Undefined)"

text \<open>Reading \<^verbatim>\<open>x.k\<close> of an arbitrary value throws on \<^verbatim>\<open>null\<close> and \<^verbatim>\<open>undefined\<close>; the names
  the tracker reads are not defined on strings, numbers, booleans and arrays.\<close>

fun get_prop :: "jsval \<Rightarrow> string \<Rightarrow> error + jsval" where
  "get_prop Undefined k = Inl TypeError"
| "get_prop Null k = Inl TypeError"
| "get_prop (Obj ps) k = Inr (getp ps k)"
| "get_prop v k = Inr Undefined"

text \<open>Defining property \<open>k\<close>: an existing property keeps its place and takes the new
  value, a new one goes to the end.\<close>

fun obj_set :: "string \<Rightarrow> jsval \<Rightarrow> props \<Rightarrow> props" where
  "obj_set k v [] = [(k, v)]"
| "obj_set k v ((k', v') # ps) =
     (if k' = k then (k, v) # ps else (k', v') # obj_set k v ps)"

text \<open>The own enumerable properties that a spread \<^verbatim>\<open>...x\<close> copies: those of an object,
  the indices of an array or of a string, none for the other values.\<close>

fun own_props :: "jsval \<Rightarrow> props" where
  "own_props (Obj ps) = ps"
| "own_props (Arr xs) = zip (map digits10 [0..<length xs]) xs"
| "own_props (Str s) = zip (map digits10 [0..<length s]) (map (\<lambda>c. Str [c]) s)"
| "own_props v = []"

definition spread :: "props \<Rightarrow> jsval \<Rightarrow> props" where
  "spread ps x = fold (\<lambda>(k, v). obj_set k v) (own_props x) ps"


section \<open>JSON\<close>

text \<open>
  \<^verbatim>\<open>JSON.stringify\<close> of an object whose property values are all strings, which is what
  the tracker serialises. \<open>quote_json\<close> is the QuoteJSONString operation.
\<close>

definition dq :: char where "dq = CHR 0x22"
definition bs :: char where "bs = CHR 0x5C"

definition hex_digit :: "nat \<Rightarrow> char" where
  "hex_digit n = ''0123456789abcdef'' ! n"

definition quote_char :: "char \<Rightarrow> string" where
  "quote_char c =
     (if c = dq then [bs, dq]
      else if c = bs then [bs, bs]
      else if c = CHR 0x08 then [bs, CHR ''b'']
      else if c = CHR 0x0C then [bs, CHR ''f'']
      else if c = CHR 0x0A then [bs, CHR ''n'']
      else if c = CHR 0x0D then [bs, CHR ''r'']
      else if c = CHR 0x09 then [bs, CHR ''t'']
      else if (of_char c :: nat) < 32
        then [bs, CHR ''u'', CHR ''0'', CHR ''0'',
              hex_digit ((of_char c :: nat) div 16), hex_digit ((of_char c :: nat) mod 16)]
      else [c])"

definition quote_json :: "string \<Rightarrow> string" where
  "quote_json s = dq # concat (map quote_char s) @ [dq]"

fun stringify_members :: "(string \<times> string) list \<Rightarrow> string" where
  "stringify_members [] = []"
| "stringify_members [(k, v)] = quote_json k @ '':'' @ quote_json v"
| "stringify_members ((k, v) # m # ms) =
     quote_json k @ '':'' @ quote_json v @ '','' @ stringify_members (m # ms)"

definition JSON_stringify :: "(string \<times> string) list \<Rightarrow> string" where
  "JSON_stringify ms = ''{'' @ stringify_members ms @ ''}''"

text \<open>
  \<^verbatim>\<open>JSON.parse\<close>: a lexer that reads the text one code unit at a time, and a parser that
  reads the tokens with a stack of the arrays and objects still open. A run of letters,
  digits, signs and dots is one token: a literal, a number, or a syntax error.
\<close>

datatype token = LBrace | RBrace | LBrack | RBrack | Colon | Comma | TStr string | TWord string

datatype lmode =
    LDefault
  | LWord string
  | LStr string
  | LEsc string
  | LUni string nat nat

definition json_ws :: "char \<Rightarrow> bool" where
  "json_ws c = (c = CHR '' '' \<or> c = CHR 0x09 \<or> c = CHR 0x0A \<or> c = CHR 0x0D)"

definition is_digit :: "char \<Rightarrow> bool" where
  "is_digit c = (48 \<le> (of_char c :: nat) \<and> (of_char c :: nat) \<le> 57)"

definition word_char :: "char \<Rightarrow> bool" where
  "word_char c =
     (let n = (of_char c :: nat)
      in (48 \<le> n \<and> n \<le> 57) \<or> (65 \<le> n \<and> n \<le> 90) \<or> (97 \<le> n \<and> n \<le> 122) \<or>
         c = CHR ''+'' \<or> c = CHR ''-'' \<or> c = CHR ''.'')"

definition hex_val :: "char \<Rightarrow> nat option" where
  "hex_val c =
     (let n = (of_char c :: nat)
      in if 48 \<le> n \<and> n \<le> 57 then Some (n - 48)
         else if 97 \<le> n \<and> n \<le> 102 then Some (n - 87)
         else if 65 \<le> n \<and> n \<le> 70 then Some (n - 55)
         else None)"

definition unescape :: "char \<Rightarrow> char option" where
  "unescape c =
     (if c = dq then Some dq
      else if c = bs then Some bs
      else if c = CHR ''/'' then Some CHR ''/''
      else if c = CHR ''b'' then Some (CHR 0x08)
      else if c = CHR ''f'' then Some (CHR 0x0C)
      else if c = CHR ''n'' then Some (CHR 0x0A)
      else if c = CHR ''r'' then Some (CHR 0x0D)
      else if c = CHR ''t'' then Some (CHR 0x09)
      else None)"

definition lex_default :: "char \<Rightarrow> (lmode \<times> token list) option" where
  "lex_default c =
     (if c = dq then Some (LStr [], [])
      else if json_ws c then Some (LDefault, [])
      else if c = CHR ''{'' then Some (LDefault, [LBrace])
      else if c = CHR ''}'' then Some (LDefault, [RBrace])
      else if c = CHR ''['' then Some (LDefault, [LBrack])
      else if c = CHR '']'' then Some (LDefault, [RBrack])
      else if c = CHR '':'' then Some (LDefault, [Colon])
      else if c = CHR '','' then Some (LDefault, [Comma])
      else if word_char c then Some (LWord [c], [])
      else None)"

text \<open>An escape \<^verbatim>\<open>\uXXXX\<close> for a code unit from 0x100 on names a string outside the
  alphabet of this model; the lexer has no value for it and stops.\<close>

fun lex_step :: "lmode \<Rightarrow> char \<Rightarrow> (lmode \<times> token list) option" where
  "lex_step LDefault c = lex_default c"
| "lex_step (LWord w) c =
     (if word_char c then Some (LWord (w @ [c]), [])
      else map_option (\<lambda>(m, ts). (m, TWord w # ts)) (lex_default c))"
| "lex_step (LStr acc) c =
     (if c = dq then Some (LDefault, [TStr acc])
      else if c = bs then Some (LEsc acc, [])
      else if (of_char c :: nat) < 32 then None
      else Some (LStr (acc @ [c]), []))"
| "lex_step (LEsc acc) c =
     (if c = CHR ''u'' then Some (LUni acc 0 0, [])
      else map_option (\<lambda>d. (LStr (acc @ [d]), [])) (unescape c))"
| "lex_step (LUni acc k v) c =
     (case hex_val c of
        None \<Rightarrow> None
      | Some d \<Rightarrow>
          if k < 3 then Some (LUni acc (Suc k) (v * 16 + d), [])
          else if v * 16 + d < 256 then Some (LStr (acc @ [char_of (v * 16 + d)]), [])
          else None)"

text \<open>
  Numbers: an optional minus, an integer part without a leading zero, an optional
  fraction and an optional exponent. The value is rounded as a double is at its two ends:
  to zero up to half the least subnormal, to an infinity from the midpoint above the largest
  double.
\<close>

definition nat_of_digits :: "string \<Rightarrow> nat" where
  "nat_of_digits ds = foldl (\<lambda>n c. 10 * n + ((of_char c :: nat) - 48)) 0 ds"

definition pow10 :: "int \<Rightarrow> rat" where
  "pow10 e = (if 0 \<le> e then 10 ^ nat e else 1 / 10 ^ nat (- e))"

definition to_double :: "rat \<Rightarrow> jsnum" where
  "to_double q =
     (if \<bar>q\<bar> \<le> 1 / 2 ^ 1075 then Fin 0
      else if 2 ^ 1024 - 2 ^ 970 \<le> \<bar>q\<bar> then (if 0 < q then PosInf else NegInf)
      else Fin q)"

definition number_of :: "string \<Rightarrow> jsnum option" where
  "number_of w =
     (let neg = (w \<noteq> [] \<and> hd w = CHR ''-'');
          r0 = (if neg then tl w else w);
          ip = takeWhile is_digit r0;
          r1 = dropWhile is_digit r0;
          has_frac = (r1 \<noteq> [] \<and> hd r1 = CHR ''.'');
          fp = (if has_frac then takeWhile is_digit (tl r1) else []);
          r2 = (if has_frac then dropWhile is_digit (tl r1) else r1);
          has_exp = (r2 \<noteq> [] \<and> (hd r2 = CHR ''e'' \<or> hd r2 = CHR ''E''));
          r3 = (if has_exp then tl r2 else r2);
          eneg = (has_exp \<and> r3 \<noteq> [] \<and> hd r3 = CHR ''-'');
          r4 = (if has_exp \<and> r3 \<noteq> [] \<and> (hd r3 = CHR ''-'' \<or> hd r3 = CHR ''+'') then tl r3 else r3);
          ep = (if has_exp then takeWhile is_digit r4 else []);
          r5 = (if has_exp then dropWhile is_digit r4 else r4);
          e = (if eneg then - int (nat_of_digits ep) else int (nat_of_digits ep));
          q = of_nat (nat_of_digits (ip @ fp)) * pow10 (e - int (length fp))
      in if ip = [] \<or> (1 < length ip \<and> hd ip = CHR ''0'') \<or> (has_frac \<and> fp = []) \<or>
            (has_exp \<and> ep = []) \<or> r5 \<noteq> []
         then None
         else Some (to_double (if neg then - q else q)))"

definition word_value :: "string \<Rightarrow> jsval option" where
  "word_value w =
     (if w = ''true'' then Some (Bool True)
      else if w = ''false'' then Some (Bool False)
      else if w = ''null'' then Some Null
      else map_option Num (number_of w))"

datatype frame = FArr "jsval list" | FObj props | FKey props string

datatype pstate = PValue | PValueOrClose | PKeyOrClose | PKey | PColon | PAfter | PDone jsval

definition deliver :: "jsval \<Rightarrow> frame list \<Rightarrow> (pstate \<times> frame list) option" where
  "deliver v st =
     (case st of
        [] \<Rightarrow> Some (PDone v, [])
      | FArr xs # st' \<Rightarrow> Some (PAfter, FArr (xs @ [v]) # st')
      | FKey ps k # st' \<Rightarrow> Some (PAfter, FObj (obj_set k v ps) # st')
      | FObj ps # st' \<Rightarrow> None)"

definition open_key :: "string \<Rightarrow> frame list \<Rightarrow> (pstate \<times> frame list) option" where
  "open_key k st = (case st of FObj ps # st' \<Rightarrow> Some (PColon, FKey ps k # st') | _ \<Rightarrow> None)"

definition close_obj :: "frame list \<Rightarrow> (pstate \<times> frame list) option" where
  "close_obj st = (case st of FObj ps # st' \<Rightarrow> deliver (Obj ps) st' | _ \<Rightarrow> None)"

definition close_arr :: "frame list \<Rightarrow> (pstate \<times> frame list) option" where
  "close_arr st = (case st of FArr xs # st' \<Rightarrow> deliver (Arr xs) st' | _ \<Rightarrow> None)"

definition value_token :: "token \<Rightarrow> frame list \<Rightarrow> (pstate \<times> frame list) option" where
  "value_token t st =
     (case t of
        TStr s \<Rightarrow> deliver (Str s) st
      | TWord w \<Rightarrow> (case word_value w of Some v \<Rightarrow> deliver v st | None \<Rightarrow> None)
      | LBrack \<Rightarrow> Some (PValueOrClose, FArr [] # st)
      | LBrace \<Rightarrow> Some (PKeyOrClose, FObj [] # st)
      | _ \<Rightarrow> None)"

fun parse_step :: "pstate \<Rightarrow> frame list \<Rightarrow> token \<Rightarrow> (pstate \<times> frame list) option" where
  "parse_step PValue st t = value_token t st"
| "parse_step PValueOrClose st t = (if t = RBrack then close_arr st else value_token t st)"
| "parse_step PKeyOrClose st t =
     (case t of TStr k \<Rightarrow> open_key k st | RBrace \<Rightarrow> close_obj st | _ \<Rightarrow> None)"
| "parse_step PKey st t = (case t of TStr k \<Rightarrow> open_key k st | _ \<Rightarrow> None)"
| "parse_step PColon st t = (if t = Colon then Some (PValue, st) else None)"
| "parse_step PAfter st t =
     (case t of
        Comma \<Rightarrow>
          (case st of
             FArr xs # st' \<Rightarrow> Some (PValue, st)
           | FObj ps # st' \<Rightarrow> Some (PKey, st)
           | _ \<Rightarrow> None)
      | RBrack \<Rightarrow> close_arr st
      | RBrace \<Rightarrow> close_obj st
      | _ \<Rightarrow> None)"
| "parse_step (PDone v) st t = None"

fun parse_tokens :: "pstate \<Rightarrow> frame list \<Rightarrow> token list \<Rightarrow> (pstate \<times> frame list) option" where
  "parse_tokens p st [] = Some (p, st)"
| "parse_tokens p st (t # ts) =
     (case parse_step p st t of None \<Rightarrow> None | Some (p', st') \<Rightarrow> parse_tokens p' st' ts)"

text \<open>One pass over the text: each code unit moves the lexer, and the tokens it completes
  move the parser. At the end of the text a pending word is the last token, and an open
  string is an error.\<close>

fun json_run :: "lmode \<Rightarrow> pstate \<Rightarrow> frame list \<Rightarrow> string \<Rightarrow> (pstate \<times> frame list) option" where
  "json_run m p st [] =
     (case m of
        LDefault \<Rightarrow> Some (p, st)
      | LWord w \<Rightarrow> parse_step p st (TWord w)
      | _ \<Rightarrow> None)"
| "json_run m p st (c # cs) =
     (case lex_step m c of
        None \<Rightarrow> None
      | Some (m', ts) \<Rightarrow>
          (case parse_tokens p st ts of
             None \<Rightarrow> None
           | Some (p', st') \<Rightarrow> json_run m' p' st' cs))"

definition JSON_parse :: "string \<Rightarrow> error + jsval" where
  "JSON_parse s =
     (case json_run LDefault PValue [] s of
        Some (PDone v, []) \<Rightarrow> Inr v
      | _ \<Rightarrow> Inl SyntaxError)"


section \<open>The page and the tracker's state\<close>

text \<open>
  Two versions of the tracker are in the repository: \<^verbatim>\<open>client_tracker.js\<close>, keyed by
  \<^verbatim>\<open>org\<close>, and a later one keyed by \<^verbatim>\<open>tracking_key\<close>, which adds the field-name
  normalisation and three entries of the denylist. They share everything else.
\<close>

datatype build = OrgBuild | TrackingKeyBuild

record config =
  tenant :: string
  env :: string
  debug :: bool

text \<open>An element of the document, as far as the listeners read it.\<close>

record element =
  tagName :: string
  attrs :: "string \<rightharpoonup> string"
  innerText :: string
  textContent :: string

text \<open>A form: its \<^verbatim>\<open>action\<close> property and the entries of \<^verbatim>\<open>new FormData(form)\<close> with string
  values (file inputs are not modelled).\<close>

record form = element +
  action :: string
  entries :: "(string \<times> string) list"

text \<open>
  One window: the browser state, what the document and the environment provide for this
  page load, the two globals, and the variables of the tracker's closure.
  \<open>iso_clock w n\<close> is what \<^verbatim>\<open>new Date().toISOString()\<close> returns when the log holds \<open>n\<close>
  entries; \<open>rand36\<close> and \<open>date_now\<close> are the random token and the clock that
  \<^verbatim>\<open>getGAClientId\<close> reads; \<open>search\<close> is the decoded parameter list of
  \<^verbatim>\<open>new URLSearchParams(location.search)\<close>; \<open>script\<close> holds the attributes of the script element
  the tracker was loaded by, if it is found. \<open>loaded\<close> is \<^verbatim>\<open>window.__CLIENT_TRACKER__\<close>;
  \<open>listening\<close> says that the script ran to its end, so that its listeners and the public
  interface exist.
\<close>

record window = browser +
  script :: "(string \<rightharpoonup> string) option"
  search :: "(string \<times> string) list"
  href :: string
  title :: string
  referrer :: string
  rand36 :: string
  date_now :: nat
  iso_clock :: "nat \<Rightarrow> string"
  loaded :: bool
  dataLayer :: "jsval list"
  listening :: bool
  CONFIG :: config
  GA_CLIENT_ID :: string
  tracking :: jsval
  adInfo :: props
  seenScroll :: "nat set"
  formStarted :: bool
  exitTracked :: bool

datatype outcome = Done window | Thrown error window

definition window_of :: "outcome \<Rightarrow> window" where
  "window_of r = (case r of Done w \<Rightarrow> w | Thrown e w \<Rightarrow> w)"

text \<open>\<^verbatim>\<open>el.getAttribute(k) || d\<close> and the reflected properties \<^verbatim>\<open>id\<close> and \<^verbatim>\<open>className\<close>.\<close>

definition attr_or :: "(string \<rightharpoonup> string) \<Rightarrow> string \<Rightarrow> string \<Rightarrow> string" where
  "attr_or a k d = (case a k of Some v \<Rightarrow> if v \<noteq> [] then v else d | None \<Rightarrow> d)"

definition config_of :: "build \<Rightarrow> (string \<rightharpoonup> string) option \<Rightarrow> config" where
  "config_of bld sc =
     (let a = (case sc of Some a \<Rightarrow> a | None \<Rightarrow> Map.empty)
      in \<lparr>tenant = (case bld of OrgBuild \<Rightarrow> attr_or a ''data-org'' ''unknown''
                    | TrackingKeyBuild \<Rightarrow> attr_or a ''data-tracking-key'' ''unknown''),
          env = attr_or a ''data-env'' ''prod'',
          debug = (a ''data-debug'' = Some ''true'')\<rparr>)"


section \<open>Attribution: \<^verbatim>\<open>readParams\<close>, the persisted record, \<^verbatim>\<open>detectAds\<close>\<close>

text \<open>\<^verbatim>\<open>p.get(k) || ''\<close>: the first value of parameter \<open>k\<close>, or the empty string.\<close>

definition param :: "(string \<times> string) list \<Rightarrow> string \<Rightarrow> string" where
  "param q k = (case map_of q k of Some v \<Rightarrow> v | None \<Rightarrow> [])"

definition readParams :: "(string \<times> string) list \<Rightarrow> (string \<times> string) list" where
  "readParams q =
     [(''utm_source'', param q ''utm_source''),
      (''utm_medium'', param q ''utm_medium''),
      (''utm_campaign'', param q ''utm_campaign''),
      (''utm_term'', param q ''utm_term''),
      (''utm_content'', param q ''utm_content''),
      (''utm_campaign_id'', param q ''utm_id''),
      (''fbclid'', param q ''fbclid''),
      (''gclid'', param q ''gclid''),
      (''msclkid'', param q ''msclkid''),
      (''li_fat_id'', param q ''li_fat_id'')]"

text \<open>\<^verbatim>\<open>Object.values(tracking).some(Boolean)\<close>.\<close>

definition hasAny :: "(string \<times> string) list \<Rightarrow> bool" where
  "hasAny r = list_ex (\<lambda>(k, v). v \<noteq> []) r"

definition str_obj :: "(string \<times> string) list \<Rightarrow> jsval" where
  "str_obj r = Obj (map (\<lambda>(k, v). (k, Str v)) r)"

text \<open>
  Lines 77 to 90 of \<^verbatim>\<open>client_tracker.js\<close>: the record read from the URL is stored and used
  when it has a non-empty field; otherwise a non-empty stored entry is parsed and used,
  and \<^verbatim>\<open>JSON.parse\<close> may throw.
\<close>

definition load_tracking :: "window \<Rightarrow> error + window" where
  "load_tracking w =
     (let fresh = readParams (search w)
      in if hasAny fresh
         then Inr (w\<lparr>sessionStorage := (sessionStorage w)(''tracking_params'' \<mapsto> JSON_stringify fresh),
                     tracking := str_obj fresh\<rparr>)
         else (case sessionStorage w ''tracking_params'' of
                 None \<Rightarrow> Inr (w\<lparr>tracking := str_obj fresh\<rparr>)
               | Some stored \<Rightarrow>
                   if stored \<noteq> [] then
                     (case JSON_parse stored of
                        Inl e \<Rightarrow> Inl e
                      | Inr v \<Rightarrow> Inr (w\<lparr>tracking := v\<rparr>))
                   else Inr (w\<lparr>tracking := str_obj fresh\<rparr>)))"

definition ad_info :: "string \<Rightarrow> string \<Rightarrow> jsval \<Rightarrow> props" where
  "ad_info platform ty v =
     [(''ad_platform'', Str platform), (''ad_click_id_type'', Str ty), (''ad_click_id_value'', v)]"

definition detectAds :: "jsval \<Rightarrow> error + props" where
  "detectAds data =
     (case get_prop data ''fbclid'' of
        Inl e \<Rightarrow> Inl e
      | Inr fb \<Rightarrow>
          if truthy fb then Inr (ad_info ''Facebook/Instagram'' ''fbclid'' fb)
          else (case get_prop data ''gclid'' of
              Inl e \<Rightarrow> Inl e
            | Inr g \<Rightarrow>
                if truthy g then Inr (ad_info ''Google Ads'' ''gclid'' g)
                else (case get_prop data ''msclkid'' of
                    Inl e \<Rightarrow> Inl e
                  | Inr m \<Rightarrow>
                      if truthy m then Inr (ad_info ''Microsoft Ads'' ''msclkid'' m)
                      else (case get_prop data ''li_fat_id'' of
                          Inl e \<Rightarrow> Inl e
                        | Inr l \<Rightarrow>
                            if truthy l then Inr (ad_info ''LinkedIn Ads'' ''li_fat_id'' l)
                            else Inr (ad_info '''' '''' (Str ''''))))))"


section \<open>The emitter: \<^verbatim>\<open>pushToDataLayer\<close>\<close>

text \<open>The default parameter \<^verbatim>\<open>eventData = {}\<close> replaces an absent or undefined
  argument. The three spreads come last, in this order, so each overrides what is before
  it.\<close>

definition envelope :: "build \<Rightarrow> jsval \<Rightarrow> jsval \<Rightarrow> window \<Rightarrow> props" where
  "envelope bld eventName eventData w =
     spread (spread (spread
       [(''event'', eventName),
        (''activity_type'', eventName),
        (case bld of OrgBuild \<Rightarrow> ''organization'' | TrackingKeyBuild \<Rightarrow> ''tracking_key'',
           Str (tenant (CONFIG w))),
        (''environment'', Str (env (CONFIG w))),
        (''ga_client_id'', Str (GA_CLIENT_ID w)),
        (''client_id'', Str (GA_CLIENT_ID w)),
        (''page_url'', Str (href w)),
        (''page_title'', Str (title w)),
        (''page_referrer'', js_or (Str (referrer w)) (Str ''direct'')),
        (''timestamp'', Str (iso_clock w (length (dataLayer w))))]
       (tracking w)) (Obj (adInfo w)))
       (if eventData = Undefined then Obj [] else eventData)"

definition pushToDataLayer :: "build \<Rightarrow> jsval \<Rightarrow> jsval \<Rightarrow> window \<Rightarrow> window" where
  "pushToDataLayer bld eventName eventData w =
     w\<lparr>dataLayer := dataLayer w @ [Obj (envelope bld eventName eventData w)]\<rparr>"


section \<open>The script body\<close>

definition session_start :: "build \<Rightarrow> window \<Rightarrow> window" where
  "session_start bld w =
     (if (case sessionStorage w ''session_started'' of Some s \<Rightarrow> s = [] | None \<Rightarrow> True)
      then pushToDataLayer bld (Str ''session_start'') Undefined
             (w\<lparr>sessionStorage := (sessionStorage w)(''session_started'' \<mapsto> ''1'')\<rparr>)
      else w)"

text \<open>
  The script from its first line to its last. A second run in the same window returns at
  the guard. An exception leaves the window as it was when it was thrown, with no listener
  registered.
\<close>

definition tracker_script :: "build \<Rightarrow> window \<Rightarrow> outcome" where
  "tracker_script bld w =
     (if loaded w then Done w
      else
        (let w1 = w\<lparr>loaded := True, CONFIG := config_of bld (script w)\<rparr>;
             (cid, w2) = getGAClientId (rand36 w1) (date_now w1) w1;
             w3 = w2\<lparr>GA_CLIENT_ID := cid\<rparr>
         in case load_tracking w3 of
              Inl e \<Rightarrow> Thrown e w3
            | Inr w4 \<Rightarrow>
                (case detectAds (tracking w4) of
                   Inl e \<Rightarrow> Thrown e w4
                 | Inr ai \<Rightarrow>
                     (let w5 = session_start bld (w4\<lparr>adInfo := ai\<rparr>);
                          w6 = pushToDataLayer bld (Str ''page_view'') Undefined w5
                      in Done (w6\<lparr>seenScroll := {}, formStarted := False,
                                   exitTracked := False, listening := True\<rparr>)))))"


section \<open>The listeners\<close>

subsection \<open>Scroll depth\<close>

definition scrollMarks :: "nat list" where
  "scrollMarks = [25, 50, 75, 90]"

text \<open>\<^verbatim>\<open>percent >= mark\<close> for the result of \<^verbatim>\<open>Math.round\<close>.\<close>

fun num_ge :: "jsnum \<Rightarrow> nat \<Rightarrow> bool" where
  "num_ge NaN m = False"
| "num_ge PosInf m = True"
| "num_ge NegInf m = False"
| "num_ge (Fin q) m = (of_nat m \<le> q)"

definition scroll_mark :: "build \<Rightarrow> jsnum \<Rightarrow> nat \<Rightarrow> window \<Rightarrow> window" where
  "scroll_mark bld percent mark w =
     (if num_ge percent mark \<and> mark \<notin> seenScroll w
      then pushToDataLayer bld (Str ''scroll_depth'')
             (Obj [(''percent_scrolled'', Num (Fin (of_nat mark)))])
             (w\<lparr>seenScroll := insert mark (seenScroll w)\<rparr>)
      else w)"

text \<open>The function the scroll listener hands to \<^verbatim>\<open>setTimeout\<close>; \<open>percent\<close> is the rounded
  percentage it computes from the scroll position when it runs, 100 ms after the last
  scroll event.\<close>

definition scroll_timeout :: "build \<Rightarrow> jsnum \<Rightarrow> window \<Rightarrow> window" where
  "scroll_timeout bld percent w = fold (scroll_mark bld percent) scrollMarks w"

subsection \<open>Clicks\<close>

definition is_space :: "char \<Rightarrow> bool" where
  "is_space c = ((of_char c :: nat) \<in> {9, 10, 11, 12, 13, 32, 160})"

definition trim :: "string \<Rightarrow> string" where
  "trim s = rev (dropWhile is_space (rev (dropWhile is_space s)))"

definition click_base :: "'a element_scheme \<Rightarrow> props" where
  "click_base el =
     [(''element_type'', Str (toLowerCase (tagName el))),
      (''element_text'',
         Str (take 100 (trim (if innerText el \<noteq> [] then innerText el else textContent el)))),
      (''element_href'', Str (attr_or (attrs el) ''href'' '''')),
      (''element_id'', Str (attr_or (attrs el) ''id'' '''')),
      (''element_class'', Str (attr_or (attrs el) ''class'' ''''))]"

text \<open>The argument is the result of \<^verbatim>\<open>e.target.closest(...)\<close>, \<open>None\<close> for \<^verbatim>\<open>null\<close>.\<close>

definition click_listener :: "build \<Rightarrow> element option \<Rightarrow> window \<Rightarrow> window" where
  "click_listener bld target w =
     (case target of
        None \<Rightarrow> w
      | Some el \<Rightarrow>
          (case attrs el ''data-nav-item'' of
             Some v \<Rightarrow>
               pushToDataLayer bld (Str ''nav_click'')
                 (Obj (obj_set ''nav_item'' (Str v) (click_base el))) w
           | None \<Rightarrow>
          (case attrs el ''data-cta-name'' of
             Some v \<Rightarrow>
               pushToDataLayer bld (Str ''cta_click'')
                 (Obj (obj_set ''cta_location'' (Str (attr_or (attrs el) ''data-cta-location'' ''''))
                        (obj_set ''cta_name'' (Str v) (click_base el)))) w
           | None \<Rightarrow>
          (case attrs el ''data-footer-link'' of
             Some v \<Rightarrow>
               pushToDataLayer bld (Str ''footer_click'')
                 (Obj (obj_set ''link_name'' (Str v) (click_base el))) w
           | None \<Rightarrow>
          (case attrs el ''data-tab'' of
             Some v \<Rightarrow>
               pushToDataLayer bld (Str ''tab_click'')
                 (Obj (obj_set ''tab_name'' (Str v) (click_base el))) w
           | None \<Rightarrow> pushToDataLayer bld (Str ''click'') (Obj (click_base el)) w)))))"

subsection \<open>Forms\<close>

definition form_name_of :: "'a form_scheme \<Rightarrow> string" where
  "form_name_of f = attr_or (attrs f) ''name'' (attr_or (attrs f) ''id'' ''unknown_form'')"

text \<open>What \<^verbatim>\<open>focusin\<close> finds: no form control, a control outside any form, or a control of
  a form.\<close>

datatype focus_target = NoField | FieldOutsideForm | FieldIn form

definition focusin_listener :: "build \<Rightarrow> focus_target \<Rightarrow> window \<Rightarrow> window" where
  "focusin_listener bld target w =
     (case target of
        FieldIn f \<Rightarrow>
          if formStarted w then w
          else pushToDataLayer bld (Str ''form_start'')
                 (Obj [(''form_name'', Str (form_name_of f)),
                       (''form_id'', Str (attr_or (attrs f) ''id'' '''')),
                       (''form_action'', Str (action f))])
                 (w\<lparr>formStarted := True\<rparr>)
      | _ \<Rightarrow> w)"

text \<open>The chain \<^verbatim>\<open>data.k1 || data.k2 || ... || data.kn\<close>.\<close>

fun any_of :: "props \<Rightarrow> string list \<Rightarrow> jsval" where
  "any_of d [] = Undefined"
| "any_of d [k] = getp d k"
| "any_of d (k # k' # ks) = js_or (getp d k) (any_of d (k' # ks))"

text \<open>One block of \<^verbatim>\<open>normalizeFieldNames\<close>: when the chain over the aliases is truthy, its
  value is assigned to each of the output names, in the order given.\<close>

definition alias_block :: "props \<Rightarrow> string list \<Rightarrow> string list \<Rightarrow> props \<Rightarrow> props" where
  "alias_block d aliases outs n =
     (if truthy (any_of d aliases) then fold (\<lambda>k. obj_set k (any_of d aliases)) outs n else n)"

text \<open>The last block assigns \<^verbatim>\<open>data.age\<close> to \<^verbatim>\<open>age\<close> and the chain over the three birth-date
  names to \<^verbatim>\<open>date_of_birth\<close>.\<close>

definition age_block :: "props \<Rightarrow> props \<Rightarrow> props" where
  "age_block d n =
     (if truthy (any_of d [''age'', ''date_of_birth'', ''dob'', ''birthdate''])
      then obj_set ''date_of_birth'' (any_of d [''date_of_birth'', ''dob'', ''birthdate''])
             (obj_set ''age'' (getp d ''age'') n)
      else n)"

definition normalizeFieldNames :: "props \<Rightarrow> props" where
  "normalizeFieldNames d =
     (age_block d
     (alias_block d [''gender'', ''sex''] [''gender'']
     (alias_block d [''zip'', ''zipcode'', ''zip_code'', ''postal_code'', ''postalCode'']
        [''zip_code'', ''postal_code'']
     (alias_block d [''city'', ''town''] [''city'']
     (alias_block d [''state'', ''region'', ''province''] [''state'', ''region'']
     (alias_block d [''website'', ''website_url'', ''websiteUrl'', ''url'']
        [''website'', ''website_url'']
     (alias_block d [''industry'', ''business_type'', ''businessType'']
        [''industry'', ''business_type'']
     (alias_block d [''jobTitle'', ''job_title'', ''title'', ''position'']
        [''job_title'', ''jobTitle'']
     (alias_block d [''message'', ''comments'', ''description'', ''notes'']
        [''message'', ''comments'']
     (alias_block d [''country'', ''country_code'', ''countryCode''] [''country'']
     (alias_block d [''company'', ''company_name'', ''companyName'', ''organization'']
        [''company'', ''company_name'']
     (alias_block d
        [''mobile'', ''mobileNo'', ''mobile_no'', ''phone'', ''phone_number'', ''phoneNumber'']
        [''mobile_no'', ''mobileNo'', ''phone'']
     (alias_block d [''email'', ''lead_email'', ''email_address'', ''user_email'']
        [''email'', ''lead_email'']
     (alias_block d [''lastName'', ''last_name'', ''lastname''] [''lastName'', ''last_name'']
     (alias_block d [''firstName'', ''first_name'', ''firstname''] [''firstName'', ''first_name'']
        d)))))))))))))))"

definition denylist :: "build \<Rightarrow> string list" where
  "denylist bld =
     (case bld of
        OrgBuild \<Rightarrow> [''password'', ''pass'', ''pwd'', ''credit'', ''card'']
      | TrackingKeyBuild \<Rightarrow>
          [''password'', ''pass'', ''pwd'', ''credit'', ''card'', ''cvv'', ''ssn'', ''social''])"

definition sensitive :: "build \<Rightarrow> string \<Rightarrow> bool" where
  "sensitive bld key = list_ex (str_includes (toLowerCase key)) (denylist bld)"

text \<open>The loop body \<^verbatim>\<open>data[key] = value\<close> under its guard. An assignment of a string to
  the name \<^verbatim>\<open>__proto__\<close> defines no property.\<close>

definition collect_field :: "build \<Rightarrow> string \<times> string \<Rightarrow> props \<Rightarrow> props" where
  "collect_field bld kv data =
     (if \<not> sensitive bld (fst kv) \<and> fst kv \<noteq> ''__proto__''
      then obj_set (fst kv) (Str (snd kv)) data else data)"

definition submit_data :: "build \<Rightarrow> form \<Rightarrow> props" where
  "submit_data bld f =
     fold (collect_field bld) (entries f)
       ([(''form_name'', Str (form_name_of f)),
         (''form_id'', Str (attr_or (attrs f) ''id'' '''')),
         (''form_action'', Str (action f))] @
        (case bld of OrgBuild \<Rightarrow> [] | TrackingKeyBuild \<Rightarrow> [(''form_type'', Str ''html'')]))"

text \<open>The argument is \<^verbatim>\<open>e.target\<close> of a submit event.\<close>

definition submit_listener :: "build \<Rightarrow> form \<Rightarrow> window \<Rightarrow> window" where
  "submit_listener bld f w =
     (if tagName f \<noteq> ''FORM'' then w
      else pushToDataLayer bld (Str ''form_submit'')
             (Obj (case bld of
                     OrgBuild \<Rightarrow> submit_data bld f
                   | TrackingKeyBuild \<Rightarrow> normalizeFieldNames (submit_data bld f))) w)"

text \<open>The argument is \<^verbatim>\<open>e.data\<close> of a message event.\<close>

definition message_listener :: "build \<Rightarrow> jsval \<Rightarrow> window \<Rightarrow> outcome" where
  "message_listener bld d w =
     (if \<not> truthy d then Done w
      else (case get_prop d ''event'' of
          Inl e \<Rightarrow> Thrown e w
        | Inr ev \<Rightarrow>
            if \<not> truthy ev then Done w
            else if ev = Str ''form_submit'' then
              (case get_prop d ''form_name'' of
                 Inl e \<Rightarrow> Thrown e w
               | Inr fnm \<Rightarrow>
                   (let data = spread
                          [(''form_name'', js_or fnm (Str ''frappe_form'')),
                           (''form_type'', Str ''iframe''),
                           (''source'', Str ''frappe_webform'')] d
                    in Done (pushToDataLayer bld (Str ''form_submit'')
                         (Obj (case bld of
                                 OrgBuild \<Rightarrow> data
                               | TrackingKeyBuild \<Rightarrow> normalizeFieldNames data)) w)))
            else Done w))"

subsection \<open>Exit intent and visibility\<close>

text \<open>\<open>clientY\<close> is the pointer position of the event and \<open>seconds\<close> the rounded time on
  the page that the listener computes.\<close>

definition mouseleave_listener :: "build \<Rightarrow> rat \<Rightarrow> jsnum \<Rightarrow> window \<Rightarrow> window" where
  "mouseleave_listener bld clientY seconds w =
     (if clientY \<le> 0 \<and> \<not> exitTracked w
      then pushToDataLayer bld (Str ''exit_intent'') (Obj [(''time_on_page'', Num seconds)])
             (w\<lparr>exitTracked := True\<rparr>)
      else w)"

definition visibilitychange_listener :: "build \<Rightarrow> bool \<Rightarrow> window \<Rightarrow> window" where
  "visibilitychange_listener bld hidden w =
     (if hidden then pushToDataLayer bld (Str ''page_hide'') Undefined w
      else pushToDataLayer bld (Str ''page_show'') Undefined w)"

subsection \<open>Signals\<close>

text \<open>
  What can reach the tracker after the script has run: the browser's events, and a call of
  \<^verbatim>\<open>ClientTracker.push\<close> by another script with any two values (\<^verbatim>\<open>undefined\<close> for an
  argument left out). Before the script has run to its end there is no listener and no
  public interface.
\<close>

datatype signal =
    ScrollTimeout jsnum
  | Click "element option"
  | FocusIn focus_target
  | Submit form
  | Message jsval
  | MouseLeave rat jsnum
  | VisibilityChange bool
  | ApiPush jsval jsval

definition handle :: "build \<Rightarrow> signal \<Rightarrow> window \<Rightarrow> outcome" where
  "handle bld sg w =
     (if \<not> listening w then Done w
      else (case sg of
          ScrollTimeout percent \<Rightarrow> Done (scroll_timeout bld percent w)
        | Click target \<Rightarrow> Done (click_listener bld target w)
        | FocusIn target \<Rightarrow> Done (focusin_listener bld target w)
        | Submit f \<Rightarrow> Done (submit_listener bld f w)
        | Message d \<Rightarrow> message_listener bld d w
        | MouseLeave y seconds \<Rightarrow> Done (mouseleave_listener bld y seconds w)
        | VisibilityChange hidden \<Rightarrow> Done (visibilitychange_listener bld hidden w)
        | ApiPush eventName eventData \<Rightarrow> Done (pushToDataLayer bld eventName eventData w)))"



section \<open>Reading the event log\<close>

text \<open>The name of a log entry is its \<^verbatim>\<open>event\<close> field; the scroll depths of a log are the
  \<^verbatim>\<open>percent_scrolled\<close> fields of its \<^verbatim>\<open>scroll_depth\<close> entries, in the order of the log.\<close>

definition field_of :: "jsval \<Rightarrow> string \<Rightarrow> jsval" where
  "field_of e k = (case get_prop e k of Inr v \<Rightarrow> v | Inl err \<Rightarrow> Undefined)"



definition keys_of :: "jsval \<Rightarrow> string set" where
  "keys_of x = fst ` set (own_props x)"


text \<open>Neither the attribution record nor the classification has a field \<^verbatim>\<open>event\<close>, so they
  leave the name of an envelope alone. This holds for every record the tracker builds from a
  URL.\<close>

definition no_event_override :: "window \<Rightarrow> bool" where
  "no_event_override w = (''event'' \<notin> keys_of (tracking w) \<union> fst ` set (adInfo w))"


section \<open>Sessions\<close>

text \<open>The exception of an outcome, if it has one.\<close>

definition thrown :: "outcome \<Rightarrow> error option" where
  "thrown r = (case r of Done w \<Rightarrow> None | Thrown e w \<Rightarrow> Some e)"








section \<open>The specification's reading of three operations\<close>

text \<open>
  The attribution record of the specification has ten fields with text values, empty by
  default. \<open>attribution_fields\<close> lists them, each with the query parameter that it is read
  from: the parameter of the same name, except for \<^verbatim>\<open>utm_campaign_id\<close>, whose parameter is
  \<^verbatim>\<open>utm_id\<close>. \<open>field_text r k\<close> is the text that the association list \<open>r\<close> (a query string or
  a record) gives for the name \<open>k\<close>: its first entry of that name, and the empty text when
  it has none. \<open>attribution_record_spec q\<close> is the record that the specification reads from
  the query \<open>q\<close>.
\<close>

definition attribution_fields :: "(string \<times> string) list" where
  "attribution_fields =
     [(''utm_source'', ''utm_source''), (''utm_medium'', ''utm_medium''),
      (''utm_campaign'', ''utm_campaign''), (''utm_term'', ''utm_term''),
      (''utm_content'', ''utm_content''), (''utm_campaign_id'', ''utm_id''),
      (''fbclid'', ''fbclid''), (''gclid'', ''gclid''), (''msclkid'', ''msclkid''),
      (''li_fat_id'', ''li_fat_id'')]"

definition field_text :: "(string \<times> string) list \<Rightarrow> string \<Rightarrow> string" where
  "field_text r k = (case find (\<lambda>e. fst e = k) r of Some e \<Rightarrow> snd e | None \<Rightarrow> [])"

definition attribution_record_spec :: "(string \<times> string) list \<Rightarrow> (string \<times> string) list" where
  "attribution_record_spec q = map (\<lambda>e. (fst e, field_text q (snd e))) attribution_fields"

text \<open>
  The specification describes the classification as a lookup in priority order: the first
  click identifier of the record that is not empty decides, and the result is empty when
  there is none. \<open>classifyAdPlatform_spec\<close> follows these words; the properties below
  compare it with \<open>detectAds\<close>.
\<close>

definition ad_priority :: "(string \<times> string) list" where
  "ad_priority =
     [(''fbclid'', ''Facebook/Instagram''), (''gclid'', ''Google Ads''),
      (''msclkid'', ''Microsoft Ads''), (''li_fat_id'', ''LinkedIn Ads'')]"

definition classifyAdPlatform_spec :: "(string \<times> string) list \<Rightarrow> props" where
  "classifyAdPlatform_spec r =
     (case find (\<lambda>e. field_text r (fst e) \<noteq> []) ad_priority of
        None \<Rightarrow>
          [(''ad_platform'', Str []), (''ad_click_id_type'', Str []), (''ad_click_id_value'', Str [])]
      | Some e \<Rightarrow>
          [(''ad_platform'', Str (snd e)), (''ad_click_id_type'', Str (fst e)),
           (''ad_click_id_value'', Str (field_text r (fst e)))])"




text \<open>
  The specification describes the normaliser as a table: each semantic group has its
  aliases in priority order and the canonical names to populate. \<open>alias_groups\<close> is that
  table for the fourteen groups before the birth-date group, \<open>birth_group\<close> the entry the
  table would have for the last one. \<open>group_rule d g\<close> is the rule of the specification
  for group \<open>g\<close> on input \<open>d\<close>: with a present, non-empty alias every canonical name holds the
  first such alias's value; with none, the group's names are as in the input.
\<close>

definition alias_groups :: "(string list \<times> string list) list" where
  "alias_groups =
     [([''firstName'', ''first_name'', ''firstname''], [''firstName'', ''first_name'']),
      ([''lastName'', ''last_name'', ''lastname''], [''lastName'', ''last_name'']),
      ([''email'', ''lead_email'', ''email_address'', ''user_email''], [''email'', ''lead_email'']),
      ([''mobile'', ''mobileNo'', ''mobile_no'', ''phone'', ''phone_number'', ''phoneNumber''],
       [''mobile_no'', ''mobileNo'', ''phone'']),
      ([''company'', ''company_name'', ''companyName'', ''organization''],
       [''company'', ''company_name'']),
      ([''country'', ''country_code'', ''countryCode''], [''country'']),
      ([''message'', ''comments'', ''description'', ''notes''], [''message'', ''comments'']),
      ([''jobTitle'', ''job_title'', ''title'', ''position''], [''job_title'', ''jobTitle'']),
      ([''industry'', ''business_type'', ''businessType''], [''industry'', ''business_type'']),
      ([''website'', ''website_url'', ''websiteUrl'', ''url''], [''website'', ''website_url'']),
      ([''state'', ''region'', ''province''], [''state'', ''region'']),
      ([''city'', ''town''], [''city'']),
      ([''zip'', ''zipcode'', ''zip_code'', ''postal_code'', ''postalCode''],
       [''zip_code'', ''postal_code'']),
      ([''gender'', ''sex''], [''gender''])]"




text \<open>A window before the script has run, with nothing stored, no cookie and no query
  parameter: the starting point of the examples below.\<close>

definition blank_window :: window where
  "blank_window =
     \<lparr>cookie = '''', localStorage = Map.empty, sessionStorage = Map.empty,
      script = None, search = [], href = ''https://shop.example/'', title = ''Shop'',
      referrer = '''', rand36 = ''k3j9'', date_now = 1730000000123, iso_clock = digits10,
      loaded = False, dataLayer = [], listening = False,
      CONFIG = \<lparr>tenant = '''', env = '''', debug = False\<rparr>,
      GA_CLIENT_ID = '''', tracking = Undefined, adInfo = [], seenScroll = {},
      formStarted = False, exitTracked = False\<rparr>"


text \<open>The window of the examples after the script has run on a landing URL with the
  parameters \<^verbatim>\<open>utm_source=x\<close> and \<^verbatim>\<open>gclid=y\<close>.\<close>

definition landing_window :: "build \<Rightarrow> window" where
  "landing_window bld =
     window_of (tracker_script bld
       (blank_window\<lparr>search := [(''utm_source'', ''x''), (''gclid'', ''y'')]\<rparr>))"

section \<open>Properties\<close>

subsection \<open>The cookie expression\<close>

lemma starts_with_decompose: "starts_with s p \<Longrightarrow> s = p @ drop (length p) s"
  by (metis append_take_drop_id starts_with_def)

lemma capture_lazy_sound:
  "capture_lazy acc cs = Some m \<Longrightarrow> \<exists>v rest. cs = v @ CHR '';'' # rest \<and> m = acc @ v \<and> m \<noteq> []"
proof (induction cs arbitrary: acc)
  case Nil
  then show ?case by simp
next
  case (Cons c cs)
  show ?case
  proof (cases "c = CHR '';'' \<and> acc \<noteq> []")
    case True
    with Cons.prems have "m = acc" by simp
    with True show ?thesis by (intro exI [of _ "[]"] exI [of _ cs]) simp
  next
    case False
    with Cons.prems have "capture_lazy (acc @ [c]) cs = Some m"
      by (simp split: if_splits)
    from Cons.IH [OF this] obtain v rest
      where "cs = v @ CHR '';'' # rest" "m = (acc @ [c]) @ v" "m \<noteq> []" by blast
    then show ?thesis by (intro exI [of _ "c # v"] exI [of _ rest]) simp
  qed
qed

lemma capture_lazy_no_semicolon:
  "CHR '';'' \<notin> set cs \<Longrightarrow> capture_lazy acc cs = None"
  by (induction cs arbitrary: acc) auto

lemma capture_lazy_append_None:
  "capture_lazy acc cs = None \<Longrightarrow> CHR '';'' \<notin> set ys \<Longrightarrow> capture_lazy acc (cs @ ys) = None"
  by (induction cs arbitrary: acc) (auto simp: capture_lazy_no_semicolon split: if_splits)

lemma capture_lazy_complete:
  "CHR '';'' \<notin> set v \<Longrightarrow> \<forall>c \<in> set v. \<not> line_terminator c \<Longrightarrow> acc @ v \<noteq> [] \<Longrightarrow>
   capture_lazy acc (v @ CHR '';'' # rest) = Some (acc @ v)"
  by (induction v arbitrary: acc) auto

lemma match_ga_sound:
  "match_ga ck = Some m \<Longrightarrow> \<exists>pre rest. ck = pre @ ''_ga='' @ m @ '';'' @ rest \<and> m \<noteq> []"
proof (induction ck)
  case Nil
  then show ?case by simp
next
  case (Cons c cs)
  show ?case
  proof (cases "starts_with (c # cs) ''_ga='' \<and> capture_lazy [] (drop 4 (c # cs)) \<noteq> None")
    case True
    with Cons.prems have cap: "capture_lazy [] (drop 4 (c # cs)) = Some m" by auto
    from capture_lazy_sound [OF cap] obtain rest
      where d: "drop 4 (c # cs) = m @ CHR '';'' # rest" and ne: "m \<noteq> []" by auto
    have len: "length ''_ga='' = 4" by simp
    from True have "starts_with (c # cs) ''_ga=''" by blast
    from starts_with_decompose [OF this] have "c # cs = ''_ga='' @ drop 4 (c # cs)"
      unfolding len .
    with d have "c # cs = [] @ ''_ga='' @ m @ '';'' @ rest" by simp
    with ne show ?thesis by blast
  next
    case False
    with Cons.prems have "match_ga cs = Some m" by (auto split: option.splits if_splits)
    from Cons.IH [OF this] obtain pre rest
      where "cs = pre @ ''_ga='' @ m @ '';'' @ rest" "m \<noteq> []" by blast
    then have "c # cs = (c # pre) @ ''_ga='' @ m @ '';'' @ rest" by simp
    with \<open>m \<noteq> []\<close> show ?thesis by blast
  qed
qed

lemma match_ga_no_semicolon: "CHR '';'' \<notin> set ck \<Longrightarrow> match_ga ck = None"
proof (induction ck)
  case Nil
  then show ?case by simp
next
  case (Cons c cs)
  have "set (drop 4 (c # cs)) \<subseteq> set (c # cs)" by (rule set_drop_subset)
  with Cons.prems have "CHR '';'' \<notin> set (drop 4 (c # cs))" by blast
  then have "capture_lazy [] (drop 4 (c # cs)) = None" by (rule capture_lazy_no_semicolon)
  with Cons show ?case by simp
qed

lemma match_ga_append_None:
  "match_ga xs = None \<Longrightarrow> CHR '';'' \<notin> set ys \<Longrightarrow> match_ga (xs @ ys) = None"
proof (induction xs)
  case Nil
  then show ?case by (simp add: match_ga_no_semicolon)
next
  case (Cons c cs)
  from Cons.prems have here: "starts_with (c # cs) ''_ga='' \<Longrightarrow> capture_lazy [] (drop 4 (c # cs)) = None"
    and tl: "match_ga cs = None"
    by (auto split: option.splits if_splits)
  have ih: "match_ga (cs @ ys) = None" using Cons.IH [OF tl Cons.prems(2)] .
  have "capture_lazy [] (drop 4 ((c # cs) @ ys)) = None"
    if sw: "starts_with ((c # cs) @ ys) ''_ga=''"
  proof (cases "4 \<le> length (c # cs)")
    case True
    then have "starts_with (c # cs) ''_ga=''" using sw by (simp add: starts_with_def)
    from here [OF this] have "capture_lazy [] (drop 4 (c # cs) @ ys) = None"
      using Cons.prems(2) by (rule capture_lazy_append_None)
    with True show ?thesis by simp
  next
    case False
    then have "drop 4 ((c # cs) @ ys) = drop (4 - length (c # cs)) ys" by simp
    moreover have "CHR '';'' \<notin> set (drop (4 - length (c # cs)) ys)"
      using Cons.prems(2) set_drop_subset [of "4 - length (c # cs)" ys] by blast
    ultimately show ?thesis by (simp add: capture_lazy_no_semicolon)
  qed
  with ih show ?case by (auto split: option.splits)
qed


subsection \<open>Client identity\<close>

text \<open>
  Claim C8. Identity resolution is idempotent: a second call, made against the cookie and
  storage state the first call left behind, returns the same identifier and leaves that
  state as it is, whatever the random source and the clock give the second time. Once an
  identifier has been found in the cookie or in local storage, the call writes nothing and
  its result does not depend on the random source or on the clock: nothing is regenerated.
\<close>

theorem getGAClientId_idempotent:
  "getGAClientId rnd now b = (cid, b') \<Longrightarrow>
   getGAClientId rnd' now' b' = (cid, b') \<and>
   (cookie_client_id (cookie b) \<noteq> None \<or>
    (\<exists>s. localStorage b ''ga_client_id'' = Some s \<and> s \<noteq> [])
      \<longrightarrow> b' = b \<and> getGAClientId rnd' now' b = (cid, b))"
  by (auto simp: getGAClientId_def Let_def split: option.splits if_splits)

theorem getGAClientId_idempotent_witness:
  "getGAClientId ''k3j9'' 1730000000123
     \<lparr>cookie = '''', localStorage = Map.empty, sessionStorage = Map.empty\<rparr> =
     (''cid_k3j91730000000123'',
      \<lparr>cookie = '''', localStorage = [''ga_client_id'' \<mapsto> ''cid_k3j91730000000123''],
         sessionStorage = Map.empty\<rparr>) \<and>
   getGAClientId ''x7q'' 1730000099999
     \<lparr>cookie = '''', localStorage = [''ga_client_id'' \<mapsto> ''cid_k3j91730000000123''],
        sessionStorage = Map.empty\<rparr> =
     (''cid_k3j91730000000123'',
      \<lparr>cookie = '''', localStorage = [''ga_client_id'' \<mapsto> ''cid_k3j91730000000123''],
         sessionStorage = Map.empty\<rparr>)"
proof -
  have h: "getGAClientId ''k3j9'' 1730000000123
      \<lparr>cookie = '''', localStorage = Map.empty, sessionStorage = Map.empty\<rparr> =
     (''cid_k3j91730000000123'',
      \<lparr>cookie = '''', localStorage = [''ga_client_id'' \<mapsto> ''cid_k3j91730000000123''],
         sessionStorage = Map.empty\<rparr>)"
    by (simp add: getGAClientId_def cookie_client_id_def digits10.simps Let_def)
  from getGAClientId_idempotent [OF h, of "''x7q''" 1730000099999] h show ?thesis
    by blast
qed

text \<open>
  Claim C10. The cookie branch yields an identifier only when the cookie string holds
  \<^verbatim>\<open>_ga=\<close>, a non-empty value and a semicolon after it. When the text before the last entry
  gives no match and the entry \<^verbatim>\<open>_ga=v\<close> ends the cookie string with no semicolon in
  \<open>v\<close>, the cookie branch fails and the identifier is the stored one, or a fresh one when
  none is stored; the same value followed by a semicolon would have been accepted.
\<close>

theorem ga_cookie_needs_semicolon:
  "(cookie_client_id ck = Some cid \<longrightarrow>
      (\<exists>pre v rest. ck = pre @ ''_ga='' @ v @ '';'' @ rest \<and> v \<noteq> [])) \<and>
   (match_ga pre = None \<and> CHR '';'' \<notin> set v \<and> cookie b = pre @ ''_ga='' @ v \<longrightarrow>
      cookie_client_id (cookie b) = None \<and>
      fst (getGAClientId rnd now b) =
        (case localStorage b ''ga_client_id'' of
           Some s \<Rightarrow> if s \<noteq> [] then s else ''cid_'' @ rnd @ digits10 now
         | None \<Rightarrow> ''cid_'' @ rnd @ digits10 now)) \<and>
   (v \<noteq> [] \<and> CHR '';'' \<notin> set v \<and> (\<forall>c \<in> set v. \<not> line_terminator c) \<and>
    4 \<le> length (split_on CHR ''.'' v) \<longrightarrow>
      cookie_client_id (''_ga='' @ v @ '';'' @ rest') =
        Some (split_on CHR ''.'' v ! 2 @ ''.'' @ split_on CHR ''.'' v ! 3))"
proof (intro conjI impI)
  assume "cookie_client_id ck = Some cid"
  then obtain m where "match_ga ck = Some m"
    by (auto simp: cookie_client_id_def split: option.splits)
  from match_ga_sound [OF this]
  show "\<exists>pre v rest. ck = pre @ ''_ga='' @ v @ '';'' @ rest \<and> v \<noteq> []" by blast
next
  assume a: "match_ga pre = None \<and> CHR '';'' \<notin> set v \<and> cookie b = pre @ ''_ga='' @ v"
  then have "CHR '';'' \<notin> set (''_ga='' @ v)" by simp
  with a have "match_ga (pre @ ''_ga='' @ v) = None"
    by (intro match_ga_append_None) blast+
  with a show none: "cookie_client_id (cookie b) = None"
    by (simp add: cookie_client_id_def)
  then show "fst (getGAClientId rnd now b) =
        (case localStorage b ''ga_client_id'' of
           Some s \<Rightarrow> if s \<noteq> [] then s else ''cid_'' @ rnd @ digits10 now
         | None \<Rightarrow> ''cid_'' @ rnd @ digits10 now)"
    by (simp add: getGAClientId_def Let_def split: option.splits)
next
  assume a: "v \<noteq> [] \<and> CHR '';'' \<notin> set v \<and> (\<forall>c \<in> set v. \<not> line_terminator c) \<and>
    4 \<le> length (split_on CHR ''.'' v)"
  then have "capture_lazy [] (v @ CHR '';'' # rest') = Some ([] @ v)"
    by (intro capture_lazy_complete) auto
  then have "match_ga (''_ga='' @ v @ '';'' @ rest') = Some v"
    by (simp add: starts_with_def)
  with a show "cookie_client_id (''_ga='' @ v @ '';'' @ rest') =
        Some (split_on CHR ''.'' v ! 2 @ ''.'' @ split_on CHR ''.'' v ! 3)"
    by (simp add: cookie_client_id_def Let_def)
qed

theorem ga_cookie_needs_semicolon_witness:
  "cookie_client_id ''theme=dark; _ga=GA1.2.123456789.987654321'' = None \<and>
   fst (getGAClientId ''k3j9'' 1730000000123
     \<lparr>cookie = ''theme=dark; _ga=GA1.2.123456789.987654321'',
        localStorage = Map.empty, sessionStorage = Map.empty\<rparr>) = ''cid_k3j91730000000123'' \<and>
   cookie_client_id ''_ga=GA1.2.123456789.987654321; theme=dark'' =
     Some ''123456789.987654321'' \<and>
   (\<exists>pre v rest. ''_ga=GA1.2.123456789.987654321; theme=dark'' =
      pre @ ''_ga='' @ v @ '';'' @ rest \<and> v \<noteq> [])"
proof -
  let ?b = "\<lparr>cookie = ''theme=dark; _ga=GA1.2.123456789.987654321'',
        localStorage = Map.empty, sessionStorage = Map.empty\<rparr>"
  have pre: "match_ga ''theme=dark; '' = None"
    by (simp add: starts_with_def line_terminator_def)
  have v: "CHR '';'' \<notin> set ''GA1.2.123456789.987654321''" by simp
  have ck: "cookie ?b = ''theme=dark; '' @ ''_ga='' @ ''GA1.2.123456789.987654321''" by simp
  have ok: "''GA1.2.123456789.987654321'' \<noteq> [] \<and> CHR '';'' \<notin> set ''GA1.2.123456789.987654321'' \<and>
    (\<forall>c \<in> set ''GA1.2.123456789.987654321''. \<not> line_terminator c) \<and>
    4 \<le> length (split_on CHR ''.'' ''GA1.2.123456789.987654321'')"
    by (simp add: line_terminator_def)
  note t = ga_cookie_needs_semicolon [of "''_ga=GA1.2.123456789.987654321; theme=dark''"
      "''123456789.987654321''" "''theme=dark; ''" "''GA1.2.123456789.987654321''" ?b
      "''k3j9''" 1730000000123 "'' theme=dark''"]
  from t pre v ck have c1: "cookie_client_id (cookie ?b) = None" by blast
  from t pre v ck have c2: "fst (getGAClientId ''k3j9'' 1730000000123 ?b) =
      (case localStorage ?b ''ga_client_id'' of
           Some s \<Rightarrow> if s \<noteq> [] then s else ''cid_'' @ ''k3j9'' @ digits10 1730000000123
         | None \<Rightarrow> ''cid_'' @ ''k3j9'' @ digits10 1730000000123)" by blast
  from t ok have c3: "cookie_client_id (''_ga='' @ ''GA1.2.123456789.987654321'' @ '';'' @ '' theme=dark'') =
        Some (split_on CHR ''.'' ''GA1.2.123456789.987654321'' ! 2 @ ''.'' @
              split_on CHR ''.'' ''GA1.2.123456789.987654321'' ! 3)" by blast
  from c3 have c3': "cookie_client_id ''_ga=GA1.2.123456789.987654321; theme=dark'' =
     Some ''123456789.987654321''" by simp
  from t c3' have c4: "\<exists>pre v rest. ''_ga=GA1.2.123456789.987654321; theme=dark'' =
      pre @ ''_ga='' @ v @ '';'' @ rest \<and> v \<noteq> []" by blast
  from c1 c2 c3' c4 show ?thesis by (simp add: digits10.simps)
qed


subsection \<open>Serialising and parsing the attribution record\<close>

lemma hex_table: "list_all (\<lambda>n. hex_val (hex_digit n) = Some n) [0..<16]"
  by code_simp

lemma hex_val_hex_digit: "n < 16 \<Longrightarrow> hex_val (hex_digit n) = Some n"
  using hex_table by (simp add: list_all_iff)

lemma run_silent:
  "lex_step m c = Some (m', []) \<Longrightarrow> json_run m p st (c # cs) = json_run m' p st cs"
  by simp

lemma run_control:
  assumes "(of_char c :: nat) < 32"
  shows "json_run (LStr acc) p st ([bs, CHR ''u'', CHR ''0'', CHR ''0'',
              hex_digit ((of_char c :: nat) div 16), hex_digit ((of_char c :: nat) mod 16)] @ rest)
         = json_run (LStr (acc @ [c])) p st rest"
proof -
  let ?n = "of_char c :: nat"
  have d: "?n div 16 < 16" "?n mod 16 < 16" using assms by auto
  have v: "(?n div 16) * 16 + ?n mod 16 = ?n" by simp
  have lt: "?n < 256" using assms by simp
  have h0: "hex_val CHR ''0'' = Some 0" by (simp add: hex_val_def)
  have s1: "lex_step (LStr acc) bs = Some (LEsc acc, [])" by (simp add: bs_def dq_def)
  have s2: "lex_step (LEsc acc) CHR ''u'' = Some (LUni acc 0 0, [])" by simp
  have s3: "lex_step (LUni acc 0 0) CHR ''0'' = Some (LUni acc 1 0, [])" by (simp add: h0)
  have s4: "lex_step (LUni acc 1 0) CHR ''0'' = Some (LUni acc 2 0, [])" by (simp add: h0)
  have s5: "lex_step (LUni acc 2 0) (hex_digit (?n div 16)) = Some (LUni acc 3 (?n div 16), [])"
    by (simp add: hex_val_hex_digit [OF d(1)])
  have s6: "lex_step (LUni acc 3 (?n div 16)) (hex_digit (?n mod 16)) = Some (LStr (acc @ [c]), [])"
    using lt by (simp add: hex_val_hex_digit [OF d(2)] v)
  show ?thesis
    by (simp only: append_Cons append_Nil run_silent [OF s1] run_silent [OF s2]
        run_silent [OF s3] run_silent [OF s4] run_silent [OF s5] run_silent [OF s6])
qed

lemma run_escape:
  "unescape e = Some c \<Longrightarrow> e \<noteq> CHR ''u'' \<Longrightarrow>
   json_run (LStr acc) p st ([bs, e] @ rest) = json_run (LStr (acc @ [c])) p st rest"
proof -
  assume u: "unescape e = Some c" and e: "e \<noteq> CHR ''u''"
  have s1: "lex_step (LStr acc) bs = Some (LEsc acc, [])" by (simp add: bs_def dq_def)
  have s2: "lex_step (LEsc acc) e = Some (LStr (acc @ [c]), [])" using u e by simp
  show ?thesis
    by (simp only: append_Cons append_Nil run_silent [OF s1] run_silent [OF s2])
qed

lemma run_quote_char:
  "json_run (LStr acc) p st (quote_char c @ rest) = json_run (LStr (acc @ [c])) p st rest"
proof -
  consider (q) "c = dq" | (b) "c = bs" | (c8) "c = CHR 0x08" | (cC) "c = CHR 0x0C"
    | (cA) "c = CHR 0x0A" | (cD) "c = CHR 0x0D" | (c9) "c = CHR 0x09"
    | (ctl) "c \<notin> {dq, bs, CHR 0x08, CHR 0x0C, CHR 0x0A, CHR 0x0D, CHR 0x09}" "(of_char c :: nat) < 32"
    | (plain) "c \<notin> {dq, bs, CHR 0x08, CHR 0x0C, CHR 0x0A, CHR 0x0D, CHR 0x09}" "\<not> (of_char c :: nat) < 32"
    by blast
  then show ?thesis
  proof cases
    case q
    have "quote_char c = [bs, dq]" using q by (simp add: quote_char_def)
    moreover have "unescape dq = Some c" "dq \<noteq> CHR ''u''" using q by (simp_all add: unescape_def dq_def)
    ultimately show ?thesis using run_escape by metis
  next
    case b
    have "quote_char c = [bs, bs]" using b by (simp add: quote_char_def dq_def bs_def)
    moreover have "unescape bs = Some c" "bs \<noteq> CHR ''u''" using b by (simp_all add: unescape_def dq_def bs_def)
    ultimately show ?thesis using run_escape by metis
  next
    case c8
    have "quote_char c = [bs, CHR ''b'']" using c8 by (simp add: quote_char_def dq_def bs_def)
    moreover have "unescape CHR ''b'' = Some c" "CHR ''b'' \<noteq> CHR ''u''" using c8 by (simp_all add: unescape_def dq_def bs_def)
    ultimately show ?thesis using run_escape by metis
  next
    case cC
    have "quote_char c = [bs, CHR ''f'']" using cC by (simp add: quote_char_def dq_def bs_def)
    moreover have "unescape CHR ''f'' = Some c" "CHR ''f'' \<noteq> CHR ''u''" using cC by (simp_all add: unescape_def dq_def bs_def)
    ultimately show ?thesis using run_escape by metis
  next
    case cA
    have "quote_char c = [bs, CHR ''n'']" using cA by (simp add: quote_char_def dq_def bs_def)
    moreover have "unescape CHR ''n'' = Some c" "CHR ''n'' \<noteq> CHR ''u''" using cA by (simp_all add: unescape_def dq_def bs_def)
    ultimately show ?thesis using run_escape by metis
  next
    case cD
    have "quote_char c = [bs, CHR ''r'']" using cD by (simp add: quote_char_def dq_def bs_def)
    moreover have "unescape CHR ''r'' = Some c" "CHR ''r'' \<noteq> CHR ''u''" using cD by (simp_all add: unescape_def dq_def bs_def)
    ultimately show ?thesis using run_escape by metis
  next
    case c9
    have "quote_char c = [bs, CHR ''t'']" using c9 by (simp add: quote_char_def dq_def bs_def)
    moreover have "unescape CHR ''t'' = Some c" "CHR ''t'' \<noteq> CHR ''u''" using c9 by (simp_all add: unescape_def dq_def bs_def)
    ultimately show ?thesis using run_escape by metis
  next
    case ctl
    then have "quote_char c = [bs, CHR ''u'', CHR ''0'', CHR ''0'',
              hex_digit ((of_char c :: nat) div 16), hex_digit ((of_char c :: nat) mod 16)]"
      by (simp add: quote_char_def)
    with run_control [OF ctl(2)] show ?thesis by simp
  next
    case plain
    then have qc: "quote_char c = [c]" by (simp add: quote_char_def)
    have "lex_step (LStr acc) c = Some (LStr (acc @ [c]), [])" using plain by simp
    from run_silent [OF this] qc show ?thesis by simp
  qed
qed

lemma run_string_body:
  "json_run (LStr acc) p st (concat (map quote_char s) @ dq # rest) =
   (case parse_step p st (TStr (acc @ s)) of
      None \<Rightarrow> None
    | Some (p', st') \<Rightarrow> json_run LDefault p' st' rest)"
proof (induction s arbitrary: acc)
  case Nil
  show ?case by (simp split: option.splits)
next
  case (Cons c s)
  have "json_run (LStr acc) p st (concat (map quote_char (c # s)) @ dq # rest) =
        json_run (LStr acc) p st (quote_char c @ (concat (map quote_char s) @ dq # rest))" by simp
  also have "\<dots> = json_run (LStr (acc @ [c])) p st (concat (map quote_char s) @ dq # rest)"
    by (rule run_quote_char)
  also have "\<dots> = (case parse_step p st (TStr ((acc @ [c]) @ s)) of
      None \<Rightarrow> None
    | Some (p', st') \<Rightarrow> json_run LDefault p' st' rest)"
    by (rule Cons.IH)
  finally show ?case by simp
qed

lemma run_quote_json:
  "json_run LDefault p st (quote_json s @ rest) =
   (case parse_step p st (TStr s) of
      None \<Rightarrow> None
    | Some (p', st') \<Rightarrow> json_run LDefault p' st' rest)"
proof -
  have "lex_step LDefault dq = Some (LStr [], [])" by (simp add: lex_default_def)
  from run_silent [OF this] run_string_body [of "[]" p st s rest]
  show ?thesis by (simp add: quote_json_def)
qed


lemma run_member:
  assumes "p = PKey \<or> p = PKeyOrClose"
  shows "json_run LDefault p (FObj ps # st) (quote_json k @ '':'' @ quote_json v @ rest) =
         json_run LDefault PAfter (FObj (obj_set k (Str v) ps) # st) rest"
proof -
  have k: "parse_step p (FObj ps # st) (TStr k) = Some (PColon, FKey ps k # st)"
    using assms by (auto simp: open_key_def)
  have c: "json_run LDefault PColon (FKey ps k # st) (CHR '':'' # quote_json v @ rest) =
           json_run LDefault PValue (FKey ps k # st) (quote_json v @ rest)"
    by (simp add: lex_default_def dq_def json_ws_def)
  have v: "parse_step PValue (FKey ps k # st) (TStr v) =
           Some (PAfter, FObj (obj_set k (Str v) ps) # st)"
    by (simp add: value_token_def deliver_def)
  have "json_run LDefault p (FObj ps # st) (quote_json k @ ('':'' @ quote_json v @ rest)) =
        json_run LDefault PColon (FKey ps k # st) ('':'' @ quote_json v @ rest)"
    by (simp only: run_quote_json k option.case prod.case)
  also have "\<dots> = json_run LDefault PValue (FKey ps k # st) (quote_json v @ rest)"
    using c by simp
  also have "\<dots> = json_run LDefault PAfter (FObj (obj_set k (Str v) ps) # st) rest"
    by (simp only: run_quote_json v option.case prod.case)
  finally show ?thesis .
qed

lemma run_comma:
  "json_run LDefault PAfter (FObj ps # st) (CHR '','' # rest) =
   json_run LDefault PKey (FObj ps # st) rest"
  by (simp add: lex_default_def dq_def json_ws_def)

lemma run_members:
  "ms \<noteq> [] \<Longrightarrow> p = PKey \<or> p = PKeyOrClose \<Longrightarrow>
   json_run LDefault p (FObj ps # st) (stringify_members ms @ rest) =
   json_run LDefault PAfter (FObj (fold (\<lambda>(k, v). obj_set k (Str v)) ms ps) # st) rest"
proof (induction ms arbitrary: p ps rule: stringify_members.induct)
  case 1
  then show ?case by simp
next
  case (2 k v)
  from run_member [OF "2.prems"(2), of ps st k v rest] show ?case by simp
next
  case (3 k v m ms)
  have "json_run LDefault p (FObj ps # st) (stringify_members ((k, v) # m # ms) @ rest) =
        json_run LDefault p (FObj ps # st)
          (quote_json k @ '':'' @ quote_json v @ (CHR '','' # stringify_members (m # ms) @ rest))"
    by simp
  also have "\<dots> = json_run LDefault PAfter (FObj (obj_set k (Str v) ps) # st)
          (CHR '','' # stringify_members (m # ms) @ rest)"
    by (rule run_member [OF "3.prems"(2)])
  also have "\<dots> = json_run LDefault PKey (FObj (obj_set k (Str v) ps) # st)
          (stringify_members (m # ms) @ rest)"
    by (rule run_comma)
  also have "\<dots> = json_run LDefault PAfter
          (FObj (fold (\<lambda>(k, v). obj_set k (Str v)) (m # ms) (obj_set k (Str v) ps)) # st) rest"
    by (rule "3.IH") simp_all
  finally show ?case by simp
qed

lemma JSON_roundtrip:
  "JSON_parse (JSON_stringify ms) = Inr (Obj (fold (\<lambda>(k, v). obj_set k (Str v)) ms []))"
proof (cases "ms = []")
  case True
  then show ?thesis
    by (simp add: JSON_parse_def JSON_stringify_def lex_default_def dq_def json_ws_def
        value_token_def close_obj_def deliver_def)
next
  case False
  have op: "json_run LDefault PValue [] (CHR ''{'' # stringify_members ms @ ''}'') =
        json_run LDefault PKeyOrClose [FObj []] (stringify_members ms @ ''}'')"
    by (simp add: lex_default_def dq_def json_ws_def value_token_def)
  have cl: "json_run LDefault PAfter [FObj qs] ''}'' = Some (PDone (Obj qs), [])" for qs
    by (simp add: lex_default_def dq_def json_ws_def close_obj_def deliver_def)
  have "json_run LDefault PValue [] (JSON_stringify ms) =
        json_run LDefault PKeyOrClose [FObj []] (stringify_members ms @ ''}'')"
    using op by (simp add: JSON_stringify_def)
  also have "\<dots> = json_run LDefault PAfter
        [FObj (fold (\<lambda>(k, v). obj_set k (Str v)) ms [])] ''}''"
    by (rule run_members [OF False]) simp
  also have "\<dots> = Some (PDone (Obj (fold (\<lambda>(k, v). obj_set k (Str v)) ms [])), [])"
    by (rule cl)
  finally show ?thesis by (simp only: JSON_parse_def option.case prod.case pstate.case list.case)
qed


subsection \<open>Attribution resolution\<close>

lemma JSON_stringify_nonempty: "JSON_stringify r \<noteq> []"
  by (simp add: JSON_stringify_def)

lemma readParams_members:
  "fold (\<lambda>(k, v). obj_set k (Str v)) (readParams q) [] = map (\<lambda>(k, v). (k, Str v)) (readParams q)"
  by (simp add: readParams_def)

lemma JSON_parse_stringify_readParams:
  "JSON_parse (JSON_stringify (readParams q)) = Inr (str_obj (readParams q))"
  by (simp only: JSON_roundtrip readParams_members str_obj_def)

lemma field_text_map_of: "field_text r k = (case map_of r k of Some v \<Rightarrow> v | None \<Rightarrow> [])"
  by (induction r) (auto simp: field_text_def)

lemma param_field_text: "param q k = field_text q k"
  by (simp add: param_def field_text_map_of)

lemma readParams_spec: "readParams q = attribution_record_spec q"
  by (simp add: readParams_def attribution_record_spec_def attribution_fields_def param_field_text)

lemma hasAny_spec:
  "hasAny (readParams q) = (\<exists>e \<in> set attribution_fields. field_text q (snd e) \<noteq> [])"
  by (simp add: hasAny_def readParams_def attribution_fields_def param_field_text)

lemma str_obj_spec: "str_obj r = Obj (map (\<lambda>e. (fst e, Str (snd e))) r)"
  by (simp add: str_obj_def case_prod_beta)

lemma empty_record_spec:
  "\<forall>e \<in> set attribution_fields. field_text q (snd e) = [] \<Longrightarrow>
   attribution_record_spec q = map (\<lambda>e. (fst e, [])) attribution_fields"
  by (simp add: attribution_record_spec_def)

text \<open>
  Claim C2. Attribution resolution depends on the query parameters and on the stored entry
  only. When the query gives a non-empty value for at least one of the ten recognised
  parameters, the record read from the query is stored in session storage and used,
  whatever was stored before: each of its fields holds the query's value for the field's
  parameter and is empty when the query lacks it, so nothing of an older record is
  retained. Otherwise a record that an earlier page load stored is read back unchanged and
  used, and when nothing is stored the record with ten empty fields is used. The field
  \<^verbatim>\<open>utm_campaign_id\<close> is read from the parameter \<^verbatim>\<open>utm_id\<close>.
\<close>

theorem attribution_resolution:
  "((\<exists>e \<in> set attribution_fields. field_text (search w) (snd e) \<noteq> []) \<longrightarrow>
      load_tracking w =
        Inr (w\<lparr>sessionStorage :=
                 (sessionStorage w)(''tracking_params'' \<mapsto>
                    JSON_stringify (attribution_record_spec (search w))),
               tracking := Obj (map (\<lambda>e. (fst e, Str (snd e))) (attribution_record_spec (search w)))\<rparr>)) \<and>
   ((\<forall>e \<in> set attribution_fields. field_text (search w) (snd e) = []) \<and>
    sessionStorage w ''tracking_params'' = Some (JSON_stringify (attribution_record_spec q)) \<longrightarrow>
      load_tracking w =
        Inr (w\<lparr>tracking := Obj (map (\<lambda>e. (fst e, Str (snd e))) (attribution_record_spec q))\<rparr>)) \<and>
   ((\<forall>e \<in> set attribution_fields. field_text (search w) (snd e) = []) \<and>
    (sessionStorage w ''tracking_params'' = None \<or> sessionStorage w ''tracking_params'' = Some []) \<longrightarrow>
      load_tracking w =
        Inr (w\<lparr>tracking := Obj (map (\<lambda>e. (fst e, Str [])) attribution_fields)\<rparr>)) \<and>
   (search w = search w' \<and>
    sessionStorage w ''tracking_params'' = sessionStorage w' ''tracking_params'' \<longrightarrow>
      map_sum id tracking (load_tracking w) = map_sum id tracking (load_tracking w'))"
proof (intro conjI impI)
  assume "\<exists>e \<in> set attribution_fields. field_text (search w) (snd e) \<noteq> []"
  then have "hasAny (readParams (search w))" by (simp only: hasAny_spec)
  then show "load_tracking w =
        Inr (w\<lparr>sessionStorage :=
                 (sessionStorage w)(''tracking_params'' \<mapsto>
                    JSON_stringify (attribution_record_spec (search w))),
               tracking := Obj (map (\<lambda>e. (fst e, Str (snd e))) (attribution_record_spec (search w)))\<rparr>)"
    by (simp add: load_tracking_def Let_def str_obj_spec readParams_spec)
next
  assume a: "(\<forall>e \<in> set attribution_fields. field_text (search w) (snd e) = []) \<and>
    sessionStorage w ''tracking_params'' = Some (JSON_stringify (attribution_record_spec q))"
  then have h: "\<not> hasAny (readParams (search w))" by (simp only: hasAny_spec) blast
  from a have s: "sessionStorage w ''tracking_params'' = Some (JSON_stringify (readParams q))"
    by (simp only: readParams_spec)
  from h s have "load_tracking w = Inr (w\<lparr>tracking := str_obj (readParams q)\<rparr>)"
    by (simp add: load_tracking_def Let_def JSON_stringify_nonempty JSON_parse_stringify_readParams)
  then show "load_tracking w =
        Inr (w\<lparr>tracking := Obj (map (\<lambda>e. (fst e, Str (snd e))) (attribution_record_spec q))\<rparr>)"
    by (simp only: str_obj_spec readParams_spec)
next
  assume a: "(\<forall>e \<in> set attribution_fields. field_text (search w) (snd e) = []) \<and>
    (sessionStorage w ''tracking_params'' = None \<or> sessionStorage w ''tracking_params'' = Some [])"
  then have h: "\<not> hasAny (readParams (search w))" by (simp only: hasAny_spec) blast
  from a have e: "attribution_record_spec (search w) = map (\<lambda>e. (fst e, [])) attribution_fields"
    by (intro empty_record_spec) blast
  from h a have "load_tracking w = Inr (w\<lparr>tracking := str_obj (readParams (search w))\<rparr>)"
    by (auto simp: load_tracking_def Let_def)
  then show "load_tracking w =
        Inr (w\<lparr>tracking := Obj (map (\<lambda>e. (fst e, Str [])) attribution_fields)\<rparr>)"
    by (simp add: str_obj_spec readParams_spec e comp_def)
next
  assume "search w = search w' \<and>
    sessionStorage w ''tracking_params'' = sessionStorage w' ''tracking_params''"
  then show "map_sum id tracking (load_tracking w) = map_sum id tracking (load_tracking w')"
    by (simp add: load_tracking_def Let_def split: option.splits sum.splits)
qed

lemma stored_text_example:
  \<open>JSON_stringify (attribution_record_spec [(''fbclid'', ''1''), (''utm_medium'', ''cpc'')]) =
   ''{"utm_source":"","utm_medium":"cpc","utm_campaign":"","utm_term":"","utm_content":"","utm_campaign_id":"","fbclid":"1","gclid":"","msclkid":"","li_fat_id":""}''\<close>
  by code_simp

theorem attribution_resolution_witness:
  \<open>map_sum id (\<lambda>w. (sessionStorage w ''tracking_params'', tracking w))
     (load_tracking (blank_window\<lparr>search := [(''fbclid'', ''1''), (''utm_medium'', ''cpc'')],
        sessionStorage := [''tracking_params'' \<mapsto> ''{"utm_source":"x","gclid":"y"}'']\<rparr>)) =
     Inr (Some ''{"utm_source":"","utm_medium":"cpc","utm_campaign":"","utm_term":"","utm_content":"","utm_campaign_id":"","fbclid":"1","gclid":"","msclkid":"","li_fat_id":""}'',
          Obj [(''utm_source'', Str ''''), (''utm_medium'', Str ''cpc''), (''utm_campaign'', Str ''''),
            (''utm_term'', Str ''''), (''utm_content'', Str ''''), (''utm_campaign_id'', Str ''''),
            (''fbclid'', Str ''1''), (''gclid'', Str ''''), (''msclkid'', Str ''''),
            (''li_fat_id'', Str '''')]) \<and>
   map_sum id tracking
     (load_tracking (blank_window\<lparr>search := [(''page'', ''2'')],
        sessionStorage := [''tracking_params'' \<mapsto> ''{"utm_source":"","utm_medium":"cpc","utm_campaign":"","utm_term":"","utm_content":"","utm_campaign_id":"","fbclid":"1","gclid":"","msclkid":"","li_fat_id":""}'']\<rparr>)) =
     Inr (Obj [(''utm_source'', Str ''''), (''utm_medium'', Str ''cpc''), (''utm_campaign'', Str ''''),
            (''utm_term'', Str ''''), (''utm_content'', Str ''''), (''utm_campaign_id'', Str ''''),
            (''fbclid'', Str ''1''), (''gclid'', Str ''''), (''msclkid'', Str ''''),
            (''li_fat_id'', Str '''')]) \<and>
   map_sum id tracking (load_tracking (blank_window\<lparr>search := [(''utm_id'', ''77''), (''page'', ''2'')]\<rparr>)) =
     Inr (Obj [(''utm_source'', Str ''''), (''utm_medium'', Str ''''), (''utm_campaign'', Str ''''),
            (''utm_term'', Str ''''), (''utm_content'', Str ''''), (''utm_campaign_id'', Str ''77''),
            (''fbclid'', Str ''''), (''gclid'', Str ''''), (''msclkid'', Str ''''),
            (''li_fat_id'', Str '''')]) \<and>
   map_sum id tracking (load_tracking (blank_window\<lparr>search := [(''page'', ''2'')]\<rparr>)) =
     Inr (Obj [(''utm_source'', Str ''''), (''utm_medium'', Str ''''), (''utm_campaign'', Str ''''),
            (''utm_term'', Str ''''), (''utm_content'', Str ''''), (''utm_campaign_id'', Str ''''),
            (''fbclid'', Str ''''), (''gclid'', Str ''''), (''msclkid'', Str ''''),
            (''li_fat_id'', Str '''')]) \<and>
   map_sum id tracking (load_tracking (blank_window\<lparr>href := ''https://shop.example/cart''\<rparr>)) =
     map_sum id tracking (load_tracking blank_window)\<close>
proof -
  let ?q = "[(''fbclid'', ''1''), (''utm_medium'', ''cpc'')]"
  let ?w1 = "blank_window\<lparr>search := ?q,
        sessionStorage := [''tracking_params'' \<mapsto> ''{'' @ dq # ''utm_source'' @ dq # '':'' @ dq # ''x'' @ dq # '','' @ dq # ''gclid'' @ dq # '':'' @ dq # ''y'' @ dq # ''}'']\<rparr>"
  let ?w2 = "blank_window\<lparr>search := [(''page'', ''2'')],
        sessionStorage := [''tracking_params'' \<mapsto> JSON_stringify (attribution_record_spec ?q)]\<rparr>"
  let ?w3 = "blank_window\<lparr>search := [(''utm_id'', ''77''), (''page'', ''2'')]\<rparr>"
  let ?w4 = "blank_window\<lparr>search := [(''page'', ''2'')]\<rparr>"
  let ?w5 = "blank_window\<lparr>href := ''https://shop.example/cart''\<rparr>"
  have h1: "\<exists>e \<in> set attribution_fields. field_text (search ?w1) (snd e) \<noteq> []"
    by (simp add: attribution_fields_def field_text_def)
  have h2: "(\<forall>e \<in> set attribution_fields. field_text (search ?w2) (snd e) = []) \<and>
      sessionStorage ?w2 ''tracking_params'' = Some (JSON_stringify (attribution_record_spec ?q))"
    by (simp add: attribution_fields_def field_text_def)
  have h3: "\<exists>e \<in> set attribution_fields. field_text (search ?w3) (snd e) \<noteq> []"
    by (simp add: attribution_fields_def field_text_def)
  have h4: "(\<forall>e \<in> set attribution_fields. field_text (search ?w4) (snd e) = []) \<and>
      (sessionStorage ?w4 ''tracking_params'' = None \<or> sessionStorage ?w4 ''tracking_params'' = Some [])"
    by (simp add: attribution_fields_def field_text_def blank_window_def)
  have h5: "search ?w5 = search blank_window \<and>
      sessionStorage ?w5 ''tracking_params'' = sessionStorage blank_window ''tracking_params''"
    by simp
  from attribution_resolution [where w = ?w1, THEN conjunct1, rule_format, OF h1]
  have c1: "map_sum id (\<lambda>w. (sessionStorage w ''tracking_params'', tracking w)) (load_tracking ?w1) =
      Inr (Some (JSON_stringify (attribution_record_spec ?q)),
           Obj (map (\<lambda>e. (fst e, Str (snd e))) (attribution_record_spec ?q)))"
    by simp
  from attribution_resolution [where w = ?w2 and q = ?q, THEN conjunct2, THEN conjunct1, rule_format, OF h2]
  have c2: "map_sum id tracking (load_tracking ?w2) =
      Inr (Obj (map (\<lambda>e. (fst e, Str (snd e))) (attribution_record_spec ?q)))"
    by simp
  from attribution_resolution [where w = ?w3, THEN conjunct1, rule_format, OF h3]
  have c3: "map_sum id tracking (load_tracking ?w3) =
      Inr (Obj (map (\<lambda>e. (fst e, Str (snd e))) (attribution_record_spec [(''utm_id'', ''77''), (''page'', ''2'')])))"
    by simp
  from attribution_resolution [where w = ?w4, THEN conjunct2, THEN conjunct2, THEN conjunct1,
      rule_format, OF h4]
  have c4: "map_sum id tracking (load_tracking ?w4) =
      Inr (Obj (map (\<lambda>e. (fst e, Str [])) attribution_fields))"
    by simp
  from attribution_resolution [where w = ?w5 and w' = blank_window, THEN conjunct2, THEN conjunct2,
      THEN conjunct2, rule_format, OF h5]
  have c5: "map_sum id tracking (load_tracking ?w5) = map_sum id tracking (load_tracking blank_window)" .
  have r: "map (\<lambda>e. (fst e, Str (snd e))) (attribution_record_spec ?q) =
      [(''utm_source'', Str ''''), (''utm_medium'', Str ''cpc''), (''utm_campaign'', Str ''''),
       (''utm_term'', Str ''''), (''utm_content'', Str ''''), (''utm_campaign_id'', Str ''''),
       (''fbclid'', Str ''1''), (''gclid'', Str ''''), (''msclkid'', Str ''''),
       (''li_fat_id'', Str '''')]"
    by (simp add: attribution_record_spec_def attribution_fields_def field_text_def)
  have r3: "map (\<lambda>e. (fst e, Str (snd e))) (attribution_record_spec [(''utm_id'', ''77''), (''page'', ''2'')]) =
      [(''utm_source'', Str ''''), (''utm_medium'', Str ''''), (''utm_campaign'', Str ''''),
       (''utm_term'', Str ''''), (''utm_content'', Str ''''), (''utm_campaign_id'', Str ''77''),
       (''fbclid'', Str ''''), (''gclid'', Str ''''), (''msclkid'', Str ''''),
       (''li_fat_id'', Str '''')]"
    by (simp add: attribution_record_spec_def attribution_fields_def field_text_def)
  have r4: "map (\<lambda>e. (fst e, Str [])) attribution_fields =
      [(''utm_source'', Str ''''), (''utm_medium'', Str ''''), (''utm_campaign'', Str ''''),
       (''utm_term'', Str ''''), (''utm_content'', Str ''''), (''utm_campaign_id'', Str ''''),
       (''fbclid'', Str ''''), (''gclid'', Str ''''), (''msclkid'', Str ''''),
       (''li_fat_id'', Str '''')]"
    by (simp add: attribution_fields_def)
  have d: "dq = CHR 0x22" by (simp add: dq_def)
  from c1 c2 c3 c4 c5 show ?thesis
    unfolding r r3 r4 stored_text_example by (simp add: d)
qed


subsection \<open>Ad platform classification\<close>

lemma truthy_getp_record:
  "truthy (getp (map (\<lambda>e. (fst e, Str (snd e))) r) k) = (field_text r k \<noteq> [])"
  by (induction r) (auto simp: getp_def field_text_def)

lemma getp_record_text:
  "field_text r k \<noteq> [] \<Longrightarrow> getp (map (\<lambda>e. (fst e, Str (snd e))) r) k = Str (field_text r k)"
  by (induction r) (auto simp: getp_def field_text_def)

text \<open>
  Claim C3. On an attribution record, \<open>detectAds\<close> returns a result and never an error, and
  the result is the priority lookup of the specification: Facebook before Google before
  Microsoft before LinkedIn, the first click identifier that is not empty gives the
  platform name, the identifier's name as the type and its text as the value. A record
  with a non-empty \<^verbatim>\<open>fbclid\<close> is classified as Facebook/Instagram whatever its other
  identifiers are, and a record whose four click identifiers are empty or absent gets
  three empty fields.
\<close>

theorem detectAds_priority:
  "detectAds (Obj (map (\<lambda>e. (fst e, Str (snd e))) r)) = Inr (classifyAdPlatform_spec r) \<and>
   (field_text r ''fbclid'' \<noteq> [] \<longrightarrow>
      detectAds (Obj (map (\<lambda>e. (fst e, Str (snd e))) r)) =
        Inr [(''ad_platform'', Str ''Facebook/Instagram''), (''ad_click_id_type'', Str ''fbclid''),
             (''ad_click_id_value'', Str (field_text r ''fbclid''))]) \<and>
   (field_text r ''fbclid'' = [] \<and> field_text r ''gclid'' = [] \<and> field_text r ''msclkid'' = [] \<and>
    field_text r ''li_fat_id'' = [] \<longrightarrow>
      detectAds (Obj (map (\<lambda>e. (fst e, Str (snd e))) r)) =
        Inr [(''ad_platform'', Str ''''), (''ad_click_id_type'', Str ''''),
             (''ad_click_id_value'', Str '''')])"
  by (simp add: detectAds_def classifyAdPlatform_spec_def ad_priority_def ad_info_def
      truthy_getp_record getp_record_text)

theorem detectAds_priority_witness:
  "detectAds (Obj [(''fbclid'', Str ''1''), (''gclid'', Str ''2'')]) =
     Inr [(''ad_platform'', Str ''Facebook/Instagram''), (''ad_click_id_type'', Str ''fbclid''),
          (''ad_click_id_value'', Str ''1'')] \<and>
   detectAds (Obj [(''utm_source'', Str ''x''), (''fbclid'', Str ''''), (''gclid'', Str ''2''),
                   (''msclkid'', Str ''3'')]) =
     Inr [(''ad_platform'', Str ''Google Ads''), (''ad_click_id_type'', Str ''gclid''),
          (''ad_click_id_value'', Str ''2'')] \<and>
   detectAds (Obj [(''fbclid'', Str ''''), (''gclid'', Str ''''), (''msclkid'', Str ''3''),
                   (''li_fat_id'', Str ''4'')]) =
     Inr [(''ad_platform'', Str ''Microsoft Ads''), (''ad_click_id_type'', Str ''msclkid''),
          (''ad_click_id_value'', Str ''3'')] \<and>
   detectAds (Obj [(''li_fat_id'', Str ''4'')]) =
     Inr [(''ad_platform'', Str ''LinkedIn Ads''), (''ad_click_id_type'', Str ''li_fat_id''),
          (''ad_click_id_value'', Str ''4'')] \<and>
   detectAds (Obj [(''utm_source'', Str ''x''), (''fbclid'', Str ''''), (''gclid'', Str ''''),
                   (''msclkid'', Str ''''), (''li_fat_id'', Str '''')]) =
     Inr [(''ad_platform'', Str ''''), (''ad_click_id_type'', Str ''''),
          (''ad_click_id_value'', Str '''')]"
proof -
  let ?r1 = "[(''fbclid'', ''1''), (''gclid'', ''2'')]"
  let ?r2 = "[(''utm_source'', ''x''), (''fbclid'', ''''), (''gclid'', ''2''), (''msclkid'', ''3'')]"
  let ?r3 = "[(''fbclid'', ''''), (''gclid'', ''''), (''msclkid'', ''3''), (''li_fat_id'', ''4'')]"
  let ?r4 = "[(''li_fat_id'', ''4'')]"
  let ?r5 = "[(''utm_source'', ''x''), (''fbclid'', ''''), (''gclid'', ''''), (''msclkid'', ''''),
              (''li_fat_id'', '''')]"
  have h1: "field_text ?r1 ''fbclid'' \<noteq> []" by (simp add: field_text_def)
  have h5: "field_text ?r5 ''fbclid'' = [] \<and> field_text ?r5 ''gclid'' = [] \<and>
      field_text ?r5 ''msclkid'' = [] \<and> field_text ?r5 ''li_fat_id'' = []"
    by (simp add: field_text_def)
  from detectAds_priority [of ?r1, THEN conjunct2, THEN conjunct1, rule_format, OF h1]
  have c1: "detectAds (Obj [(''fbclid'', Str ''1''), (''gclid'', Str ''2'')]) =
     Inr [(''ad_platform'', Str ''Facebook/Instagram''), (''ad_click_id_type'', Str ''fbclid''),
          (''ad_click_id_value'', Str ''1'')]"
    by (simp add: field_text_def)
  from detectAds_priority [of ?r2, THEN conjunct1]
  have c2: "detectAds (Obj [(''utm_source'', Str ''x''), (''fbclid'', Str ''''), (''gclid'', Str ''2''),
                   (''msclkid'', Str ''3'')]) =
     Inr [(''ad_platform'', Str ''Google Ads''), (''ad_click_id_type'', Str ''gclid''),
          (''ad_click_id_value'', Str ''2'')]"
    by (simp add: classifyAdPlatform_spec_def ad_priority_def field_text_def)
  from detectAds_priority [of ?r3, THEN conjunct1]
  have c3: "detectAds (Obj [(''fbclid'', Str ''''), (''gclid'', Str ''''), (''msclkid'', Str ''3''),
                   (''li_fat_id'', Str ''4'')]) =
     Inr [(''ad_platform'', Str ''Microsoft Ads''), (''ad_click_id_type'', Str ''msclkid''),
          (''ad_click_id_value'', Str ''3'')]"
    by (simp add: classifyAdPlatform_spec_def ad_priority_def field_text_def)
  from detectAds_priority [of ?r4, THEN conjunct1]
  have c4: "detectAds (Obj [(''li_fat_id'', Str ''4'')]) =
     Inr [(''ad_platform'', Str ''LinkedIn Ads''), (''ad_click_id_type'', Str ''li_fat_id''),
          (''ad_click_id_value'', Str ''4'')]"
    by (simp add: classifyAdPlatform_spec_def ad_priority_def field_text_def)
  from detectAds_priority [of ?r5, THEN conjunct2, THEN conjunct2, rule_format, OF h5]
  have c5: "detectAds (Obj [(''utm_source'', Str ''x''), (''fbclid'', Str ''''), (''gclid'', Str ''''),
                   (''msclkid'', Str ''''), (''li_fat_id'', Str '''')]) =
     Inr [(''ad_platform'', Str ''''), (''ad_click_id_type'', Str ''''),
          (''ad_click_id_value'', Str '''')]"
    by simp
  from c1 c2 c3 c4 c5 show ?thesis by blast
qed


subsection \<open>The envelope\<close>

text \<open>The three spreads of the emitter, one field at a time, and the window of the examples.
  The property of the envelope itself follows the page loads, in the subsection on the
  envelope on a loaded page.\<close>

lemma getp_obj_set: "getp (obj_set k v ps) k' = (if k' = k then v else getp ps k')"
  by (induction ps) (auto simp: getp_def)

lemma getp_fold_notin:
  "k \<notin> fst ` set xs \<Longrightarrow> getp (fold (\<lambda>(k, v). obj_set k v) xs ps) k = getp ps k"
  by (induction xs arbitrary: ps) (auto simp: getp_obj_set)

lemma getp_fold_in:
  "distinct (map fst xs) \<Longrightarrow> (k, v) \<in> set xs \<Longrightarrow>
   getp (fold (\<lambda>(k, v). obj_set k v) xs ps) k = v"
proof (induction xs arbitrary: ps)
  case Nil
  then show ?case by simp
next
  case (Cons x xs)
  show ?case
  proof (cases "x = (k, v)")
    case True
    with Cons.prems have "k \<notin> fst ` set xs" by auto
    with True show ?thesis by (simp add: getp_fold_notin getp_obj_set)
  next
    case False
    with Cons.prems have "(k, v) \<in> set xs" "distinct (map fst xs)" by auto
    with Cons.IH show ?thesis by simp
  qed
qed


lemma getp_spread_in:
  "distinct (map fst (own_props x)) \<Longrightarrow> (k, v) \<in> set (own_props x) \<Longrightarrow> getp (spread ps x) k = v"
  by (simp add: spread_def getp_fold_in)

lemma spread_default: "spread ps (if x = Undefined then Obj [] else x) = spread ps x"
  by (simp add: spread_def)

lemma envelope_unfold:
  "envelope bld name data w =
     spread (spread (spread
       [(''event'', name),
        (''activity_type'', name),
        (case bld of OrgBuild \<Rightarrow> ''organization'' | TrackingKeyBuild \<Rightarrow> ''tracking_key'',
           Str (tenant (CONFIG w))),
        (''environment'', Str (env (CONFIG w))),
        (''ga_client_id'', Str (GA_CLIENT_ID w)),
        (''client_id'', Str (GA_CLIENT_ID w)),
        (''page_url'', Str (href w)),
        (''page_title'', Str (title w)),
        (''page_referrer'', js_or (Str (referrer w)) (Str ''direct'')),
        (''timestamp'', Str (iso_clock w (length (dataLayer w))))]
       (tracking w)) (Obj (adInfo w))) data"
  by (simp only: envelope_def spread_default)







lemma envelope_data:
  assumes "distinct (map fst (own_props data))" "(k, v) \<in> set (own_props data)"
  shows "getp (envelope bld name data w) k = v"
  by (simp only: envelope_unfold getp_spread_in [OF assms])


lemma example_script:
  "tracker_script bld (blank_window\<lparr>search := [(''utm_source'', ''x''), (''gclid'', ''y'')]\<rparr>) = Done w \<Longrightarrow>
   listening w \<and> seenScroll w = {} \<and> GA_CLIENT_ID w = ''cid_k3j91730000000123'' \<and>
   tracking w = str_obj (readParams [(''utm_source'', ''x''), (''gclid'', ''y'')]) \<and>
   adInfo w = ad_info ''Google Ads'' ''gclid'' (Str ''y'') \<and> length (dataLayer w) = 2 \<and>
   iso_clock w = digits10"
  by (auto simp: tracker_script_def blank_window_def getGAClientId_def cookie_client_id_def
      digits10.simps Let_def load_tracking_def hasAny_def readParams_def param_def detectAds_def
      str_obj_def getp_def session_start_def pushToDataLayer_def)

lemma landing_script:
  "\<exists>w. tracker_script bld (blank_window\<lparr>search := [(''utm_source'', ''x''), (''gclid'', ''y'')]\<rparr>) = Done w"
  by (simp add: tracker_script_def blank_window_def getGAClientId_def cookie_client_id_def
      Let_def load_tracking_def hasAny_def readParams_def param_def detectAds_def
      str_obj_def getp_def)

lemma landing_window_fields:
  "listening (landing_window bld)" "seenScroll (landing_window bld) = {}"
  "GA_CLIENT_ID (landing_window bld) = ''cid_k3j91730000000123''"
  "tracking (landing_window bld) = str_obj (readParams [(''utm_source'', ''x''), (''gclid'', ''y'')])"
  "adInfo (landing_window bld) = ad_info ''Google Ads'' ''gclid'' (Str ''y'')"
  "length (dataLayer (landing_window bld)) = 2"
  "iso_clock (landing_window bld) = digits10"
proof -
  from landing_script [of bld] obtain w
    where w: "tracker_script bld (blank_window\<lparr>search := [(''utm_source'', ''x''), (''gclid'', ''y'')]\<rparr>) = Done w"
    by blast
  then have lw: "landing_window bld = w" by (simp add: landing_window_def window_of_def)
  from example_script [OF w] lw
  show "listening (landing_window bld)" "seenScroll (landing_window bld) = {}"
    "GA_CLIENT_ID (landing_window bld) = ''cid_k3j91730000000123''"
    "tracking (landing_window bld) = str_obj (readParams [(''utm_source'', ''x''), (''gclid'', ''y'')])"
    "adInfo (landing_window bld) = ad_info ''Google Ads'' ''gclid'' (Str ''y'')"
    "length (dataLayer (landing_window bld)) = 2"
    "iso_clock (landing_window bld) = digits10"
    by simp_all
qed



subsection \<open>Scroll depth\<close>




















subsection \<open>Field-name normalisation\<close>

lemma map_of_obj_set: "map_of (obj_set k v ps) = (map_of ps)(k \<mapsto> v)"
  by (induction ps) auto

lemma map_of_fold_outs:
  "map_of (fold (\<lambda>k. obj_set k v) outs n) k = (if k \<in> set outs then Some v else map_of n k)"
  by (induction outs arbitrary: n) (auto simp: map_of_obj_set)


lemma map_of_alias_block_out:
  "k \<notin> set outs \<Longrightarrow> map_of (alias_block d aliases outs n) k = map_of n k"
  by (simp add: alias_block_def map_of_fold_outs)

lemma map_of_age_block_out:
  "k \<noteq> ''date_of_birth'' \<Longrightarrow> k \<noteq> ''age'' \<Longrightarrow> map_of (age_block d n) k = map_of n k"
  by (simp add: age_block_def map_of_obj_set)




lemma normalize_untouched:
  "k \<notin> set (concat (map snd alias_groups)) \<Longrightarrow> k \<noteq> ''date_of_birth'' \<Longrightarrow> k \<noteq> ''age'' \<Longrightarrow>
   map_of (normalizeFieldNames d) k = map_of d k"
  unfolding alias_groups_def normalizeFieldNames_def
  by (simp add: map_of_alias_block_out map_of_age_block_out del: any_of.simps)







subsection \<open>Sensitive form fields\<close>

lemma keys_obj_set: "fst ` set (obj_set k v ps) = insert k (fst ` set ps)"
proof -
  have "map_of (obj_set k v ps) = (map_of ps)(k \<mapsto> v)" by (rule map_of_obj_set)
  then have "dom (map_of (obj_set k v ps)) = insert k (dom (map_of ps))" by simp
  then show ?thesis by (simp only: dom_map_of_conv_image_fst)
qed

lemma collect_field_keys:
  "fst ` set (fold (collect_field bld) es base) \<subseteq>
     fst ` set base \<union> {k \<in> fst ` set es. \<not> sensitive bld k}"
proof (induction es arbitrary: base)
  case Nil
  show ?case by simp
next
  case (Cons e es)
  have "fst ` set (collect_field bld e base) \<subseteq> fst ` set base \<union> {k \<in> {fst e}. \<not> sensitive bld k}"
    by (auto simp: collect_field_def keys_obj_set)
  with Cons.IH [of "collect_field bld e base"] show ?case by auto
qed

lemma base_not_sensitive_org:
  "list_all (\<lambda>k. \<not> sensitive OrgBuild k) [''form_name'', ''form_id'', ''form_action'', ''form_type'']"
  by code_simp

lemma base_not_sensitive_key:
  "list_all (\<lambda>k. \<not> sensitive TrackingKeyBuild k)
     [''form_name'', ''form_id'', ''form_action'', ''form_type'']"
  by code_simp

lemma base_not_sensitive:
  "list_all (\<lambda>k. \<not> sensitive bld k) [''form_name'', ''form_id'', ''form_action'', ''form_type'']"
  using base_not_sensitive_org base_not_sensitive_key by (cases bld) simp_all

lemma canonical_not_sensitive_org:
  "list_all (\<lambda>k. \<not> sensitive OrgBuild k) (''age'' # ''date_of_birth'' # concat (map snd alias_groups))"
  by code_simp

lemma canonical_not_sensitive_key:
  "list_all (\<lambda>k. \<not> sensitive TrackingKeyBuild k)
     (''age'' # ''date_of_birth'' # concat (map snd alias_groups))"
  by code_simp

lemma canonical_not_sensitive:
  "list_all (\<lambda>k. \<not> sensitive bld k) (''age'' # ''date_of_birth'' # concat (map snd alias_groups))"
  using canonical_not_sensitive_org canonical_not_sensitive_key by (cases bld) simp_all

lemma submit_data_not_sensitive:
  assumes "k \<in> fst ` set (submit_data bld f)"
  shows "\<not> sensitive bld k"
proof -
  let ?base = "[(''form_name'', Str (form_name_of f)),
         (''form_id'', Str (attr_or (attrs f) ''id'' '''')),
         (''form_action'', Str (action f))] @
        (case bld of OrgBuild \<Rightarrow> [] | TrackingKeyBuild \<Rightarrow> [(''form_type'', Str ''html'')])"
  have b: "fst ` set ?base \<subseteq> {''form_name'', ''form_id'', ''form_action'', ''form_type''}"
    by (cases bld) auto
  from assms have "k \<in> fst ` set (fold (collect_field bld) (entries f) ?base)"
    by (simp only: submit_data_def)
  with collect_field_keys [of bld "entries f" ?base]
  have "k \<in> fst ` set ?base \<or> \<not> sensitive bld k" by blast
  with b have "k \<in> {''form_name'', ''form_id'', ''form_action'', ''form_type''} \<or> \<not> sensitive bld k"
    by blast
  with base_not_sensitive [of bld] show ?thesis by auto
qed

lemma normalize_keys:
  "fst ` set (normalizeFieldNames d) \<subseteq>
     fst ` set d \<union> set (''age'' # ''date_of_birth'' # concat (map snd alias_groups))"
proof
  fix k assume k: "k \<in> fst ` set (normalizeFieldNames d)"
  show "k \<in> fst ` set d \<union> set (''age'' # ''date_of_birth'' # concat (map snd alias_groups))"
  proof (rule ccontr)
    assume n: "\<not> ?thesis"
    then have "map_of (normalizeFieldNames d) k = map_of d k"
      by (intro normalize_untouched) auto
    moreover from n have "map_of d k = None"
      by (simp add: map_of_eq_None_iff)
    ultimately have "k \<notin> fst ` set (normalizeFieldNames d)"
      by (simp add: map_of_eq_None_iff)
    with k show False by simp
  qed
qed

lemma native_submit_not_sensitive:
  assumes "k \<in> fst ` set (case bld of OrgBuild \<Rightarrow> submit_data bld f
                              | TrackingKeyBuild \<Rightarrow> normalizeFieldNames (submit_data bld f))"
  shows "\<not> sensitive bld k"
proof (cases bld)
  case OrgBuild
  with assms show ?thesis by (simp add: submit_data_not_sensitive)
next
  case TrackingKeyBuild
  with assms normalize_keys [of "submit_data bld f"]
  have "k \<in> fst ` set (submit_data bld f) \<or>
        k \<in> set (''age'' # ''date_of_birth'' # concat (map snd alias_groups))" by auto
  then show ?thesis
    using submit_data_not_sensitive [of k bld f] canonical_not_sensitive [of bld]
    by (auto simp: list_all_iff)
qed

lemma message_form_submit:
  "handle bld (Message (Obj [(''event'', Str ''form_submit''), (''password'', Str ''hunter2'')]))
     (landing_window bld) =
   Done (pushToDataLayer bld (Str ''form_submit'')
     (Obj [(''form_name'', Str ''frappe_form''), (''form_type'', Str ''iframe''),
           (''source'', Str ''frappe_webform''), (''event'', Str ''form_submit''),
           (''password'', Str ''hunter2'')]) (landing_window bld))"
  by (cases bld)
    (simp_all add: handle_def message_listener_def landing_window_fields getp_def Let_def spread_def
      js_or_def normalizeFieldNames_def alias_block_def age_block_def)

lemma submit_cvv:
  "handle OrgBuild (Submit \<lparr>tagName = ''FORM'', attrs = Map.empty, innerText = '''', textContent = '''',
       action = ''/pay'', entries = [(''cvv'', ''123'')]\<rparr>) (landing_window OrgBuild) =
   Done (pushToDataLayer OrgBuild (Str ''form_submit'')
     (Obj [(''form_name'', Str ''unknown_form''), (''form_id'', Str ''''),
           (''form_action'', Str ''/pay''), (''cvv'', Str ''123'')]) (landing_window OrgBuild))"
proof -
  have "\<not> sensitive OrgBuild ''cvv''" by code_simp
  then show ?thesis
    by (simp add: handle_def submit_listener_def landing_window_fields submit_data_def
        collect_field_def form_name_of_def attr_or_def)
qed

lemma last_pushed:
  "field_of (last (dataLayer (window_of (Done (pushToDataLayer bld n d w))))) k =
   getp (envelope bld n d w) k"
  by (simp add: window_of_def pushToDataLayer_def field_of_def)

text \<open>
  Claim C1, at the inputs where the code departs from it. The message listener spreads the
  data of a cross-frame message into the event data without the denylist filter of the
  submit listener: a message \<^verbatim>\<open>{event: 'form_submit', password: 'hunter2'}\<close> is logged with
  its \<^verbatim>\<open>password\<close> field, in both versions of the tracker. The submit listener of
  \<^verbatim>\<open>client_tracker.js\<close>, whose denylist ends at \<^verbatim>\<open>card\<close>, logs a form field named \<^verbatim>\<open>cvv\<close>.
\<close>

theorem sensitive_field_leak:
  "sensitive TrackingKeyBuild ''password'' \<and>
   field_of (last (dataLayer (window_of (handle TrackingKeyBuild
       (Message (Obj [(''event'', Str ''form_submit''), (''password'', Str ''hunter2'')]))
       (landing_window TrackingKeyBuild))))) ''password'' = Str ''hunter2'' \<and>
   sensitive OrgBuild ''password'' \<and>
   field_of (last (dataLayer (window_of (handle OrgBuild
       (Message (Obj [(''event'', Str ''form_submit''), (''password'', Str ''hunter2'')]))
       (landing_window OrgBuild))))) ''password'' = Str ''hunter2'' \<and>
   sensitive TrackingKeyBuild ''cvv'' \<and>
   field_of (last (dataLayer (window_of (handle OrgBuild
       (Submit \<lparr>tagName = ''FORM'', attrs = Map.empty, innerText = '''', textContent = '''',
          action = ''/pay'', entries = [(''cvv'', ''123'')]\<rparr>)
       (landing_window OrgBuild))))) ''cvv'' = Str ''123''"
proof -
  have s1: "sensitive TrackingKeyBuild ''password''" by code_simp
  have s2: "sensitive OrgBuild ''password''" by code_simp
  have s3: "sensitive TrackingKeyBuild ''cvv''" by code_simp
  have m: "getp (envelope bld (Str ''form_submit'')
     (Obj [(''form_name'', Str ''frappe_form''), (''form_type'', Str ''iframe''),
           (''source'', Str ''frappe_webform''), (''event'', Str ''form_submit''),
           (''password'', Str ''hunter2'')]) (landing_window bld)) ''password'' = Str ''hunter2''" for bld
    by (rule envelope_data) simp_all
  have c: "getp (envelope OrgBuild (Str ''form_submit'')
     (Obj [(''form_name'', Str ''unknown_form''), (''form_id'', Str ''''),
           (''form_action'', Str ''/pay''), (''cvv'', Str ''123'')]) (landing_window OrgBuild)) ''cvv'' =
     Str ''123''"
    by (rule envelope_data) simp_all
  show ?thesis
    by (simp only: s1 s2 s3 message_form_submit submit_cvv last_pushed m c simp_thms)
qed


subsection \<open>Exceptions\<close>

lemma detectAds_Obj: "\<exists>ai. detectAds (Obj ps) = Inr ai"
  by (simp add: detectAds_def)

lemma detectAds_throws:
  "detectAds v = Inl e \<longleftrightarrow> (v = Null \<or> v = Undefined) \<and> e = TypeError"
  by (cases v) (auto simp: detectAds_def)

lemma getGAClientId_frame:
  "getGAClientId r n w = (cid, w') \<Longrightarrow>
   sessionStorage w' = sessionStorage w \<and> search w' = search w \<and> dataLayer w' = dataLayer w \<and>
   loaded w' = loaded w \<and> listening w' = listening w \<and> cookie w' = cookie w"
  by (auto simp: getGAClientId_def Let_def split: option.splits if_splits)

lemma load_tracking_throws:
  "(case load_tracking w of Inl e \<Rightarrow> Some e | Inr w' \<Rightarrow>
      (case detectAds (tracking w') of Inl e \<Rightarrow> Some e | Inr ai \<Rightarrow> None)) =
   (if hasAny (readParams (search w)) then None
    else (case sessionStorage w ''tracking_params'' of
        None \<Rightarrow> None
      | Some s \<Rightarrow>
          if s = [] then None
          else (case JSON_parse s of
              Inl e \<Rightarrow> Some e
            | Inr v \<Rightarrow> if v = Null \<or> v = Undefined then Some TypeError else None)))"
proof -
  have o: "(case detectAds (str_obj r) of Inl e \<Rightarrow> Some e | Inr ai \<Rightarrow> None) = None" for r
    using detectAds_Obj [of "map (\<lambda>(k, v). (k, Str v)) r"] by (auto simp: str_obj_def)
  have d: "(case detectAds v of Inl e \<Rightarrow> Some e | Inr ai \<Rightarrow> None) =
      (if v = Null \<or> v = Undefined then Some TypeError else None)" for v
    using detectAds_throws [of v] by (cases "detectAds v") auto
  show ?thesis
    by (simp add: load_tracking_def Let_def d str_obj_def split: option.splits sum.splits)
qed

lemma script_throws:
  "thrown (tracker_script bld w) =
   (if loaded w \<or> hasAny (readParams (search w)) then None
    else (case sessionStorage w ''tracking_params'' of
        None \<Rightarrow> None
      | Some s \<Rightarrow>
          if s = [] then None
          else (case JSON_parse s of
              Inl e \<Rightarrow> Some e
            | Inr v \<Rightarrow> if v = Null \<or> v = Undefined then Some TypeError else None)))"
proof (cases "loaded w")
  case True
  then show ?thesis by (simp add: tracker_script_def thrown_def)
next
  case False
  let ?w1 = "w\<lparr>loaded := True, CONFIG := config_of bld (script w)\<rparr>"
  obtain cid w2 where g: "getGAClientId (rand36 ?w1) (date_now ?w1) ?w1 = (cid, w2)"
    by (cases "getGAClientId (rand36 ?w1) (date_now ?w1) ?w1") blast
  let ?w3 = "w2\<lparr>GA_CLIENT_ID := cid\<rparr>"
  from getGAClientId_frame [OF g]
  have f: "sessionStorage ?w3 = sessionStorage w" "search ?w3 = search w" by simp_all
  have "thrown (tracker_script bld w) =
      (case load_tracking ?w3 of Inl e \<Rightarrow> Some e | Inr w' \<Rightarrow>
        (case detectAds (tracking w') of Inl e \<Rightarrow> Some e | Inr ai \<Rightarrow> None))"
    using False g by (simp add: tracker_script_def thrown_def Let_def split: sum.splits)
  also note load_tracking_throws [of ?w3]
  finally show ?thesis using False by (simp only: f if_False simp_thms)
qed

lemma get_prop_truthy: "truthy d \<Longrightarrow> \<exists>v. get_prop d k = Inr v"
  by (cases d) simp_all

lemma handle_never_throws: "thrown (handle bld sg w) = None"
proof (cases sg)
  case (Message d)
  show ?thesis
  proof (cases "truthy d")
    case False
    with Message show ?thesis by (simp add: handle_def message_listener_def thrown_def)
  next
    case True
    from get_prop_truthy [OF True] obtain ev fnm
      where "get_prop d ''event'' = Inr ev" "get_prop d ''form_name'' = Inr fnm" by blast
    with Message True show ?thesis
      by (simp add: handle_def message_listener_def thrown_def Let_def)
  qed
qed (simp_all add: handle_def thrown_def)

lemma JSON_parse_brace: "JSON_parse ''{'' = Inl SyntaxError"
  by (simp add: JSON_parse_def lex_default_def dq_def json_ws_def value_token_def)

lemma JSON_parse_null: "JSON_parse ''null'' = Inr Null"
  by (simp add: JSON_parse_def lex_default_def dq_def json_ws_def value_token_def word_char_def
      word_value_def deliver_def)

text \<open>
  Claim C9, at the inputs where the code departs from it. On a page without a recognised
  query parameter, when the entry \<^verbatim>\<open>tracking_params\<close> of session storage holds the text \<^verbatim>\<open>{\<close>,
  which is not JSON, the script throws the SyntaxError of \<^verbatim>\<open>JSON.parse\<close>, in both versions;
  when it holds the text \<^verbatim>\<open>null\<close>, the script throws a TypeError as \<^verbatim>\<open>detectAds\<close> reads a
  property of \<^verbatim>\<open>null\<close>. The script has no handler for either.
\<close>

theorem init_throws_on_stored_snapshot:
  "thrown (tracker_script OrgBuild
     (blank_window\<lparr>sessionStorage := [''tracking_params'' \<mapsto> ''{'']\<rparr>)) = Some SyntaxError \<and>
   thrown (tracker_script TrackingKeyBuild
     (blank_window\<lparr>sessionStorage := [''tracking_params'' \<mapsto> ''{'']\<rparr>)) = Some SyntaxError \<and>
   thrown (tracker_script OrgBuild
     (blank_window\<lparr>sessionStorage := [''tracking_params'' \<mapsto> ''null'']\<rparr>)) = Some TypeError"
proof -
  have h: "\<not> hasAny (readParams (search blank_window))" "\<not> loaded blank_window"
    by (simp_all add: blank_window_def hasAny_def readParams_def param_def)
  show ?thesis
    by (simp add: script_throws h JSON_parse_brace JSON_parse_null)
qed


subsection \<open>Session start\<close>




lemma no_event_override_cong:
  "tracking w' = tracking w \<Longrightarrow> adInfo w' = adInfo w \<Longrightarrow>
   no_event_override w' = no_event_override w"
  by (simp add: no_event_override_def)

lemma pushToDataLayer_frame:
  "localStorage (pushToDataLayer bld n d w) = localStorage w"
  "loaded (pushToDataLayer bld n d w) = loaded w"
  by (simp_all add: pushToDataLayer_def)


































subsection \<open>The envelope on a loaded page\<close>

















subsection \<open>Scroll depth on a loaded page\<close>
















end
